theory Spec2Isabelle
  imports Complex_Main "HOL-Library.Word" "HOL-Library.Char_ord" "HOL-Library.List_Lexorder"
begin

section \<open>Numbers of the dashboard\<close>

text \<open>
  A numeric column of a pandas table has the dtype int64 or float64, and the Python
  floats of the script are float64 values as well. An int64 value is a 64-bit word:
  its arithmetic wraps around silently. A float64 value is a finite number, a negative
  zero, one of the two infinities, or NaN (which is also how pandas marks an empty
  cell). \<open>Num x\<close> stands for the finite value \<open>x\<close>, \<open>Num 0\<close> for the positive zero. Every
  arithmetic operation on float64 rounds its exact result to the nearest float64
  value, a tie to the one with an even last bit.
\<close>

type_synonym int64 = "64 word"

datatype fval = Num real | NegZero | PosInf | NegInf | NaN

subsection \<open>Rounding to float64\<close>

text \<open>The number of binary digits of a positive integer.\<close>

function bits :: "int \<Rightarrow> nat" where
  "bits n = (if n \<le> 0 then 0 else Suc (bits (n div 2)))"
  by pat_completeness auto
termination
  by (relation "measure nat") auto

declare bits.simps [simp del]

text \<open>For \<open>x > 0\<close>, the integer \<open>k\<close> with \<open>2 ^ k \<le> x < 2 ^ (k + 1)\<close>.\<close>

definition floor_log2 :: "real \<Rightarrow> int" where
  "floor_log2 x =
     (if 1 \<le> x then int (bits \<lfloor>x\<rfloor>) - 1
      else - int (bits (\<lceil>1 / x\<rceil> - 1)))"

definition pow2 :: "int \<Rightarrow> real" where
  "pow2 e = (if 0 \<le> e then 2 ^ nat e else 1 / 2 ^ nat (- e))"

text \<open>The nearest integer, a tie to the even one.\<close>

definition rint :: "real \<Rightarrow> int" where
  "rint y =
     (let f = \<lfloor>y\<rfloor>; d = y - of_int f
      in if d < 1 / 2 then f
         else if 1 / 2 < d then f + 1
         else if even f then f else f + 1)"

text \<open>
  float64 has 53 significant binary digits, its smallest positive value is
  \<open>2 ^ - 1074\<close> and its values are below \<open>2 ^ 1024\<close>. A number is rounded to a multiple
  of the unit in the last place of its binade; a result that reaches \<open>2 ^ 1024\<close> is an
  infinity, and a result that rounds to zero keeps the sign of the number.
\<close>

definition round64 :: "real \<Rightarrow> fval" where
  "round64 x =
     (if x = 0 then Num 0
      else let e = max (floor_log2 \<bar>x\<bar> - 52) (- 1074);
               y = of_int (rint (\<bar>x\<bar> / pow2 e)) * pow2 e
           in if 2 ^ 1024 \<le> y then (if x < 0 then NegInf else PosInf)
              else if y = 0 then (if x < 0 then NegZero else Num 0)
              else Num (if x < 0 then - y else y))"

subsection \<open>float64 arithmetic\<close>

fun is_neg :: "fval \<Rightarrow> bool" where
  "is_neg (Num a) = (a < 0)"
| "is_neg NegZero = True"
| "is_neg PosInf = False"
| "is_neg NegInf = True"
| "is_neg NaN = False"

fun val :: "fval \<Rightarrow> real" where
  "val (Num a) = a"
| "val NegZero = 0"
| "val PosInf = 0"
| "val NegInf = 0"
| "val NaN = 0"

definition is_zero :: "fval \<Rightarrow> bool" where
  "is_zero x = (x = Num 0 \<or> x = NegZero)"

definition is_inf :: "fval \<Rightarrow> bool" where
  "is_inf x = (x = PosInf \<or> x = NegInf)"

definition zero_of :: "bool \<Rightarrow> fval" where
  "zero_of negative = (if negative then NegZero else Num 0)"

definition inf_of :: "bool \<Rightarrow> fval" where
  "inf_of negative = (if negative then NegInf else PosInf)"

text \<open>
  The rounded value of an exact product or quotient \<open>x\<close> whose sign is \<open>negative\<close>: an
  exact zero takes that sign.
\<close>

definition round64s :: "bool \<Rightarrow> real \<Rightarrow> fval" where
  "round64s negative x = (if x = 0 then zero_of negative else round64 x)"

fun fneg :: "fval \<Rightarrow> fval" where
  "fneg (Num a) = (if a = 0 then NegZero else Num (- a))"
| "fneg NegZero = Num 0"
| "fneg PosInf = NegInf"
| "fneg NegInf = PosInf"
| "fneg NaN = NaN"

text \<open>
  A sum that is exactly zero is the positive zero, unless both terms are negative
  (zeros); opposite infinities add up to NaN.
\<close>

definition fadd :: "fval \<Rightarrow> fval \<Rightarrow> fval" where
  "fadd a b =
     (if a = NaN \<or> b = NaN then NaN
      else if is_inf a then (if is_inf b \<and> a \<noteq> b then NaN else a)
      else if is_inf b then b
      else if val a + val b = 0 then zero_of (is_neg a \<and> is_neg b)
      else round64 (val a + val b))"

definition fsub :: "fval \<Rightarrow> fval \<Rightarrow> fval" where
  "fsub a b = fadd a (fneg b)"

text \<open>The sign of a product is the product of the signs; infinity times zero is NaN.\<close>

definition fmul :: "fval \<Rightarrow> fval \<Rightarrow> fval" where
  "fmul a b =
     (if a = NaN \<or> b = NaN then NaN
      else if is_inf a \<or> is_inf b
        then (if is_zero a \<or> is_zero b then NaN else inf_of (is_neg a \<noteq> is_neg b))
      else round64s (is_neg a \<noteq> is_neg b) (val a * val b))"

text \<open>
  Division never raises: a finite number that is not zero, divided by a zero, is an
  infinity whose sign is the product of the two signs (the zero has one), and zero
  divided by zero is NaN.
\<close>

definition fdiv :: "fval \<Rightarrow> fval \<Rightarrow> fval" where
  "fdiv a b =
     (if a = NaN \<or> b = NaN then NaN
      else if is_inf a then (if is_inf b then NaN else inf_of (is_neg a \<noteq> is_neg b))
      else if is_inf b then zero_of (is_neg a \<noteq> is_neg b)
      else if is_zero b
        then (if is_zero a then NaN else inf_of (is_neg a \<noteq> is_neg b))
      else round64s (is_neg a \<noteq> is_neg b) (val a / val b))"

text \<open>
  Comparisons \<open>a < b\<close> and \<open>a \<le> b\<close>: every comparison with NaN is false, and the two
  zeros are equal.
\<close>

definition fless :: "fval \<Rightarrow> fval \<Rightarrow> bool" where
  "fless a b =
     (a \<noteq> NaN \<and> b \<noteq> NaN \<and>
      (if a = PosInf \<or> b = NegInf then False
       else if a = NegInf \<or> b = PosInf then True
       else val a < val b))"

definition fle :: "fval \<Rightarrow> fval \<Rightarrow> bool" where
  "fle a b =
     (a \<noteq> NaN \<and> b \<noteq> NaN \<and>
      (if a = NegInf \<or> b = PosInf then True
       else if a = PosInf \<or> b = NegInf then False
       else val a \<le> val b))"

text \<open>
  Python's \<open>min(a, b)\<close> keeps its first argument unless the second is smaller.
\<close>

definition py_min :: "fval \<Rightarrow> fval \<Rightarrow> fval" where
  "py_min a b = (if fless b a then b else a)"

subsection \<open>Cells of a numeric column\<close>

datatype scalar = Int64 int64 | Float64 fval

text \<open>The conversion of an operand to float64 rounds an integer above \<open>2 ^ 53\<close>.\<close>

fun to_float :: "scalar \<Rightarrow> fval" where
  "to_float (Int64 w) = round64 (real_of_int (sint w))"
| "to_float (Float64 x) = x"

fun is_int :: "scalar \<Rightarrow> bool" where
  "is_int (Int64 w) = True"
| "is_int (Float64 x) = False"

definition isna :: "scalar \<Rightarrow> bool" where
  "isna c = (c = Float64 NaN)"

text \<open>
  Two int64 columns are multiplied and subtracted in int64, with wrap-around; with a
  float64 operand the operation is the float64 one. \<open>/\<close> is always the float64
  division of the converted operands.
\<close>

fun cmul :: "scalar \<Rightarrow> scalar \<Rightarrow> scalar" where
  "cmul (Int64 a) (Int64 b) = Int64 (a * b)"
| "cmul x y = Float64 (fmul (to_float x) (to_float y))"

fun csub :: "scalar \<Rightarrow> scalar \<Rightarrow> scalar" where
  "csub (Int64 a) (Int64 b) = Int64 (a - b)"
| "csub x y = Float64 (fsub (to_float x) (to_float y))"

definition cdiv :: "scalar \<Rightarrow> scalar \<Rightarrow> scalar" where
  "cdiv x y = Float64 (fdiv (to_float x) (to_float y))"

text \<open>Comparison of a cell with an integer constant of the script.\<close>

fun cell_ge :: "scalar \<Rightarrow> int \<Rightarrow> bool" where
  "cell_ge (Int64 w) k = (k \<le> sint w)"
| "cell_ge (Float64 x) k = fle (Num (of_int k)) x"

fun cell_le :: "scalar \<Rightarrow> int \<Rightarrow> bool" where
  "cell_le (Int64 w) k = (sint w \<le> k)"
| "cell_le (Float64 x) k = fle x (Num (of_int k))"

text \<open>
  A column has one dtype: a column of integers in which a value is missing, or is not
  an integer, is a float64 column.
\<close>

definition as_column :: "scalar list \<Rightarrow> scalar list" where
  "as_column cs = (if list_all is_int cs then cs else map (\<lambda>c. Float64 (to_float c)) cs)"

section \<open>Scenario projection (Simulated Impact page)\<close>

text \<open>A number written in the script is the float64 value nearest to it.\<close>

record scenario =
  cac_reduction :: fval
  retention_increase :: fval
  frequency_increase :: fval
  aov_increase :: fval
  timeline :: nat

definition scenarios_data :: "string \<rightharpoonup> scenario" where
  "scenarios_data =
     [''Conservative'' \<mapsto>
        \<lparr>cac_reduction = round64 (15 / 100), retention_increase = round64 (15 / 100),
         frequency_increase = round64 (25 / 100), aov_increase = round64 (5 / 100),
         timeline = 12\<rparr>,
      ''Base Case'' \<mapsto>
        \<lparr>cac_reduction = round64 (25 / 100), retention_increase = round64 (25 / 100),
         frequency_increase = round64 (40 / 100), aov_increase = round64 (10 / 100),
         timeline = 12\<rparr>,
      ''Optimistic'' \<mapsto>
        \<lparr>cac_reduction = round64 (35 / 100), retention_increase = round64 (35 / 100),
         frequency_increase = round64 (60 / 100), aov_increase = round64 (15 / 100),
         timeline = 12\<rparr>]"

definition projected_cac :: "fval \<Rightarrow> scenario \<Rightarrow> fval" where
  "projected_cac current_cac selected_scenario =
     fmul current_cac (fsub (Num 1) (cac_reduction selected_scenario))"

definition projected_frequency :: "fval \<Rightarrow> scenario \<Rightarrow> fval" where
  "projected_frequency current_frequency selected_scenario =
     fmul current_frequency (fadd (Num 1) (frequency_increase selected_scenario))"

definition projected_aov :: "fval \<Rightarrow> scenario \<Rightarrow> fval" where
  "projected_aov current_aov selected_scenario =
     fmul current_aov (fadd (Num 1) (aov_increase selected_scenario))"

definition projected_clv :: "fval \<Rightarrow> fval \<Rightarrow> scenario \<Rightarrow> fval" where
  "projected_clv current_aov current_frequency selected_scenario =
     fmul (projected_aov current_aov selected_scenario)
          (projected_frequency current_frequency selected_scenario)"

definition projected_roi :: "fval \<Rightarrow> fval \<Rightarrow> fval \<Rightarrow> scenario \<Rightarrow> fval" where
  "projected_roi current_cac current_aov current_frequency selected_scenario =
     fsub (projected_clv current_aov current_frequency selected_scenario)
          (projected_cac current_cac selected_scenario)"

definition projected_satisfaction :: "fval \<Rightarrow> fval" where
  "projected_satisfaction current_satisfaction =
     py_min (fmul current_satisfaction (round64 (11 / 10))) (Num 5)"

section \<open>Customer table and derived metrics\<close>

text \<open>
  One row of the table that \<open>read_csv\<close> returns. The identifier may be missing; every
  row has a city, a zone and a segment. A numeric cell is an int64 or a float64 value
  (NaN when the cell of the file is empty), and the cells of one column have the same
  dtype.
\<close>

record customer_record =
  CustomerID :: "string option"
  City :: string
  Zone :: string
  CustomerSegment :: string
  AvgOrderValue :: scalar
  OrderFrequency :: scalar
  ReturnedOrders :: scalar
  SatisfactionScore :: scalar

text \<open>A row of the table that \<open>load_data\<close> returns: the input columns and four more.\<close>

record derived_row = customer_record +
  CLV :: scalar
  ReturnRate :: scalar
  CAC :: scalar
  ROI :: scalar

text \<open>A row of \<open>df_custom\<close> on the ROI page, which has the column \<open>ROI_Ratio\<close> as well.\<close>

record custom_row = derived_row +
  ROI_Ratio :: scalar

text \<open>
  \<open>Series.map(dict)\<close>: a key that the dictionary lacks gives NaN, not an error. The
  values of the dictionaries of the script are integers, so the new column is int64
  when every key is found and float64 otherwise.
\<close>

definition map_dict :: "(string \<rightharpoonup> int64) \<Rightarrow> string \<Rightarrow> scalar" where
  "map_dict d k = (case d k of None \<Rightarrow> Float64 NaN | Some v \<Rightarrow> Int64 v)"

definition series_map :: "(string \<rightharpoonup> int64) \<Rightarrow> string list \<Rightarrow> scalar list" where
  "series_map d keys = as_column (map (map_dict d) keys)"

definition cac_map :: "string \<rightharpoonup> int64" where
  "cac_map = [''Premium'' \<mapsto> 500, ''Regular'' \<mapsto> 300, ''Budget'' \<mapsto> 200,
              ''Occasional'' \<mapsto> 150]"

text \<open>The four column assignments of \<open>load_data\<close>, column by column.\<close>

definition add_computed_columns :: "customer_record list \<Rightarrow> derived_row list" where
  "add_computed_columns df =
     (let clv = map (\<lambda>r. cmul (AvgOrderValue r) (OrderFrequency r)) df;
          return_rate = map (\<lambda>r. cdiv (ReturnedOrders r) (OrderFrequency r)) df;
          cac = series_map cac_map (map CustomerSegment df);
          roi = map2 csub clv cac
      in map (\<lambda>(r, v, q, c, p).
                \<lparr>CustomerID = CustomerID r, City = City r, Zone = Zone r,
                 CustomerSegment = CustomerSegment r, AvgOrderValue = AvgOrderValue r,
                 OrderFrequency = OrderFrequency r, ReturnedOrders = ReturnedOrders r,
                 SatisfactionScore = SatisfactionScore r,
                 CLV = v, ReturnRate = q, CAC = c, ROI = p\<rparr>)
           (zip df (zip clv (zip return_rate (zip cac roi)))))"

text \<open>
  \<open>load_data\<close>: the argument is the table read from the CSV file, \<open>None\<close> when the file
  is not found; the function then reports the problem and returns \<open>None\<close>. Nothing
  else is caught and nothing is raised by the column arithmetic.
\<close>

definition load_data :: "customer_record list option \<Rightarrow> derived_row list option" where
  "load_data csv =
     (case csv of
        None \<Rightarrow> None
      | Some records \<Rightarrow> Some (add_computed_columns records))"

section \<open>Recomputation with custom acquisition costs (ROI page)\<close>

text \<open>The number inputs of the page return integers.\<close>

definition cac_map_custom :: "int64 \<Rightarrow> int64 \<Rightarrow> int64 \<Rightarrow> int64 \<Rightarrow> (string \<rightharpoonup> int64)" where
  "cac_map_custom cac_premium cac_regular cac_budget cac_occasional =
     [''Premium'' \<mapsto> cac_premium, ''Regular'' \<mapsto> cac_regular,
      ''Budget'' \<mapsto> cac_budget, ''Occasional'' \<mapsto> cac_occasional]"

text \<open>The three column assignments, in the order of the source.\<close>

definition set_CAC ::
  "(string \<rightharpoonup> int64) \<Rightarrow> 'a derived_row_scheme list \<Rightarrow> 'a derived_row_scheme list" where
  "set_CAC d t =
     map (\<lambda>(r, c). r\<lparr>CAC := c\<rparr>) (zip t (series_map d (map CustomerSegment t)))"

definition set_ROI :: "'a derived_row_scheme list \<Rightarrow> 'a derived_row_scheme list" where
  "set_ROI t = map (\<lambda>r. r\<lparr>ROI := csub (CLV r) (CAC r)\<rparr>) t"

definition add_ROI_Ratio :: "derived_row list \<Rightarrow> custom_row list" where
  "add_ROI_Ratio t =
     map (\<lambda>r. derived_row.extend r (custom_row.fields (cdiv (CLV r) (CAC r)))) t"

definition set_ROI_Ratio :: "custom_row list \<Rightarrow> custom_row list" where
  "set_ROI_Ratio t = map (\<lambda>r. r\<lparr>ROI_Ratio := cdiv (CLV r) (CAC r)\<rparr>) t"

definition df_custom :: "(string \<rightharpoonup> int64) \<Rightarrow> derived_row list \<Rightarrow> custom_row list" where
  "df_custom cac_map_custom' df = add_ROI_Ratio (set_ROI (set_CAC cac_map_custom' df))"

section \<open>Funnel (Funnel Analysis page)\<close>

definition between :: "int \<Rightarrow> int \<Rightarrow> scalar \<Rightarrow> bool" where
  "between left right x = (cell_ge x left \<and> cell_le x right)"

definition total_customers :: "'a customer_record_scheme list \<Rightarrow> nat" where
  "total_customers df = length df"

definition stage_1_order :: "'a customer_record_scheme list \<Rightarrow> nat" where
  "stage_1_order df = length (filter (\<lambda>r. cell_ge (OrderFrequency r) 1) df)"

definition stage_2_3_orders :: "'a customer_record_scheme list \<Rightarrow> nat" where
  "stage_2_3_orders df = length (filter (\<lambda>r. between 2 3 (OrderFrequency r)) df)"

definition stage_4plus_orders :: "'a customer_record_scheme list \<Rightarrow> nat" where
  "stage_4plus_orders df = length (filter (\<lambda>r. cell_ge (OrderFrequency r) 4) df)"

text \<open>
  The counts are Python integers, and \<open>/\<close> on integers raises ZeroDivisionError when
  the divisor is zero.
\<close>

datatype error = ZeroDivisionError

definition py_truediv :: "int \<Rightarrow> int \<Rightarrow> error + real" where
  "py_truediv a b = (if b = 0 then Inl ZeroDivisionError else Inr (real_of_int a / real_of_int b))"

definition percent :: "error + real \<Rightarrow> error + real" where
  "percent q = (case q of Inl e \<Rightarrow> Inl e | Inr v \<Rightarrow> Inr (v * 100))"

definition conv_rate_1 :: "'a customer_record_scheme list \<Rightarrow> error + real" where
  "conv_rate_1 df = percent (py_truediv (int (stage_1_order df)) (int (total_customers df)))"

definition conv_rate_2 :: "'a customer_record_scheme list \<Rightarrow> error + real" where
  "conv_rate_2 df = percent (py_truediv (int (stage_2_3_orders df)) (int (stage_1_order df)))"

definition conv_rate_3 :: "'a customer_record_scheme list \<Rightarrow> error + real" where
  "conv_rate_3 df =
     percent (py_truediv (int (stage_4plus_orders df)) (int (stage_2_3_orders df)))"

definition dropoff_1_2 :: "'a customer_record_scheme list \<Rightarrow> error + real" where
  "dropoff_1_2 df =
     percent (py_truediv (int (stage_1_order df) - int (stage_2_3_orders df))
                         (int (stage_1_order df)))"

definition dropoff_2_3 :: "'a customer_record_scheme list \<Rightarrow> error + real" where
  "dropoff_2_3 df =
     percent (py_truediv (int (stage_2_3_orders df) - int (stage_4plus_orders df))
                         (int (stage_2_3_orders df)))"

text \<open>
  The page evaluates the five rates one after the other; the first division that
  raises ends the page.
\<close>

record funnel_rates =
  shown_conv_rate_1 :: real
  shown_conv_rate_2 :: real
  shown_conv_rate_3 :: real
  shown_dropoff_1_2 :: real
  shown_dropoff_2_3 :: real

definition funnel_analysis :: "'a customer_record_scheme list \<Rightarrow> error + funnel_rates" where
  "funnel_analysis df =
     (case conv_rate_1 df of Inl e \<Rightarrow> Inl e | Inr c1 \<Rightarrow>
      case conv_rate_2 df of Inl e \<Rightarrow> Inl e | Inr c2 \<Rightarrow>
      case conv_rate_3 df of Inl e \<Rightarrow> Inl e | Inr c3 \<Rightarrow>
      case dropoff_1_2 df of Inl e \<Rightarrow> Inl e | Inr d12 \<Rightarrow>
      case dropoff_2_3 df of Inl e \<Rightarrow> Inl e | Inr d23 \<Rightarrow>
        Inr \<lparr>shown_conv_rate_1 = c1, shown_conv_rate_2 = c2, shown_conv_rate_3 = c3,
             shown_dropoff_1_2 = d12, shown_dropoff_2_3 = d23\<rparr>)"

section \<open>Grouped summaries\<close>

text \<open>
  \<open>groupby\<close> partitions the rows by the value of the key column; the groups come in
  ascending order of the key, and a key with no row has no group.
\<close>

definition groupby :: "('r \<Rightarrow> string) \<Rightarrow> 'r list \<Rightarrow> (string \<times> 'r list) list" where
  "groupby key df =
     map (\<lambda>k. (k, filter (\<lambda>r. key r = k) df)) (sort (remdups (map key df)))"

text \<open>The aggregation \<open>count\<close>: the number of cells of the column that are not missing.\<close>

definition count :: "'a option list \<Rightarrow> nat" where
  "count col = length (filter (\<lambda>c. c \<noteq> None) col)"

record segment_summary =
  Avg_CLV :: scalar
  Avg_CAC :: scalar
  Avg_ROI :: scalar
  Avg_ROI_Ratio :: scalar
  Customer_Count :: nat

text \<open>
  \<open>segment_roi\<close>: per segment, the means of CLV, CAC, ROI and ROI_Ratio rounded to two
  decimals, and the count of the CustomerID cells. The parameter \<open>mean_round2\<close> is the
  library's mean of a column followed by its rounding to two decimals; the order in
  which the library adds the cells is not fixed here.
\<close>

definition segment_roi ::
  "(scalar list \<Rightarrow> scalar) \<Rightarrow> custom_row list \<Rightarrow> (string \<times> segment_summary) list" where
  "segment_roi mean_round2 dfc =
     map (\<lambda>(k, g).
            (k, \<lparr>Avg_CLV = mean_round2 (map CLV g),
                 Avg_CAC = mean_round2 (map CAC g),
                 Avg_ROI = mean_round2 (map ROI g),
                 Avg_ROI_Ratio = mean_round2 (map ROI_Ratio g),
                 Customer_Count = count (map CustomerID g)\<rparr>))
         (groupby CustomerSegment dfc)"

text \<open>
  \<open>describe()\<close> on the Data Exploration page summarises every numeric column; its
  count of a column is the number of cells that are not NaN, and its mean is taken
  over those cells.
\<close>

definition describe_count :: "scalar list \<Rightarrow> nat" where
  "describe_count col = length (filter (\<lambda>c. \<not> isna c) col)"

text \<open>The segment and the identifier of each row, which decide the counts.\<close>

definition keyed_ids :: "'a customer_record_scheme list \<Rightarrow> (string \<times> string option) list" where
  "keyed_ids t = map (\<lambda>r. (CustomerSegment r, CustomerID r)) t"

section \<open>Tables as objects\<close>

text \<open>
  A DataFrame is an object: a variable holds a reference to it, and a column
  assignment changes the object that the variable refers to. The store is the list
  of the objects made so far, a reference is an index into it, and a new object goes
  to the end.
\<close>

datatype frame = Derived "derived_row list" | Custom "custom_row list"

type_synonym ref = nat
type_synonym heap = "frame list"

text \<open>\<open>df.copy()\<close>: a new object with the same rows.\<close>

definition df_copy :: "heap \<Rightarrow> ref \<Rightarrow> heap \<times> ref" where
  "df_copy h r = (h @ [h ! r], length h)"

text \<open>\<open>x['CAC'] = x['CustomerSegment'].map(d)\<close>, in place.\<close>

fun frame_set_CAC :: "(string \<rightharpoonup> int64) \<Rightarrow> frame \<Rightarrow> frame" where
  "frame_set_CAC d (Derived t) = Derived (set_CAC d t)"
| "frame_set_CAC d (Custom t) = Custom (set_CAC d t)"

definition setitem_CAC :: "heap \<Rightarrow> ref \<Rightarrow> (string \<rightharpoonup> int64) \<Rightarrow> heap" where
  "setitem_CAC h r d = h[r := frame_set_CAC d (h ! r)]"

text \<open>\<open>x['ROI'] = x['CLV'] - x['CAC']\<close>, in place.\<close>

fun frame_set_ROI :: "frame \<Rightarrow> frame" where
  "frame_set_ROI (Derived t) = Derived (set_ROI t)"
| "frame_set_ROI (Custom t) = Custom (set_ROI t)"

definition setitem_ROI :: "heap \<Rightarrow> ref \<Rightarrow> heap" where
  "setitem_ROI h r = h[r := frame_set_ROI (h ! r)]"

text \<open>\<open>x['ROI_Ratio'] = x['CLV'] / x['CAC']\<close>, in place: the object gets the column.\<close>

fun frame_set_ROI_Ratio :: "frame \<Rightarrow> frame" where
  "frame_set_ROI_Ratio (Derived t) = Custom (add_ROI_Ratio t)"
| "frame_set_ROI_Ratio (Custom t) = Custom (set_ROI_Ratio t)"

definition setitem_ROI_Ratio :: "heap \<Rightarrow> ref \<Rightarrow> heap" where
  "setitem_ROI_Ratio h r = h[r := frame_set_ROI_Ratio (h ! r)]"

text \<open>\<open>x[x[column] == value]\<close>: a new object with the rows that match.\<close>

datatype column = City_column | CustomerSegment_column | Zone_column

fun cell :: "column \<Rightarrow> 'a customer_record_scheme \<Rightarrow> string" where
  "cell City_column r = City r"
| "cell CustomerSegment_column r = CustomerSegment r"
| "cell Zone_column r = Zone r"

fun frame_where :: "column \<Rightarrow> string \<Rightarrow> frame \<Rightarrow> frame" where
  "frame_where c v (Derived t) = Derived (filter (\<lambda>r. cell c r = v) t)"
| "frame_where c v (Custom t) = Custom (filter (\<lambda>r. cell c r = v) t)"

definition getitem_where :: "heap \<Rightarrow> ref \<Rightarrow> column \<Rightarrow> string \<Rightarrow> heap \<times> ref" where
  "getitem_where h r c v = (h @ [frame_where c v (h ! r)], length h)"

text \<open>
  The filters of the Data Exploration page: \<open>df\<close> is the reference to the loaded
  table, the result is the store and the reference that \<open>filtered_df\<close> holds.
\<close>

definition filtered_df :: "heap \<Rightarrow> ref \<Rightarrow> string \<Rightarrow> string \<Rightarrow> string \<Rightarrow> heap \<times> ref" where
  "filtered_df h df selected_city selected_segment selected_zone =
     (let (h1, r1) = df_copy h df;
          (h2, r2) = (if selected_city \<noteq> ''All''
                      then getitem_where h1 r1 City_column selected_city else (h1, r1));
          (h3, r3) = (if selected_segment \<noteq> ''All''
                      then getitem_where h2 r2 CustomerSegment_column selected_segment
                      else (h2, r2))
      in if selected_zone \<noteq> ''All''
         then getitem_where h3 r3 Zone_column selected_zone else (h3, r3))"

text \<open>
  The recomputation of the ROI page, on the store: the result is the store and the
  reference that \<open>df_custom\<close> holds.
\<close>

definition recompute_custom ::
  "heap \<Rightarrow> ref \<Rightarrow> int64 \<Rightarrow> int64 \<Rightarrow> int64 \<Rightarrow> int64 \<Rightarrow> heap \<times> ref" where
  "recompute_custom h df cac_premium cac_regular cac_budget cac_occasional =
     (let (h1, r) = df_copy h df;
          d = cac_map_custom cac_premium cac_regular cac_budget cac_occasional;
          h2 = setitem_CAC h1 r d;
          h3 = setitem_ROI h2 r;
          h4 = setitem_ROI_Ratio h3 r
      in (h4, r))"

section \<open>Example records\<close>

text \<open>Rows of a customer table, used to evaluate the definitions.\<close>

definition premium_customer :: customer_record where
  "premium_customer =
     \<lparr>CustomerID = Some ''C001'', City = ''Indore'', Zone = ''North'',
      CustomerSegment = ''Premium'', AvgOrderValue = Int64 450, OrderFrequency = Int64 4,
      ReturnedOrders = Int64 1, SatisfactionScore = Int64 4\<rparr>"

definition returns_without_orders :: customer_record where
  "returns_without_orders =
     \<lparr>CustomerID = Some ''C002'', City = ''Indore'', Zone = ''North'',
      CustomerSegment = ''Regular'', AvgOrderValue = Int64 300, OrderFrequency = Int64 0,
      ReturnedOrders = Int64 1, SatisfactionScore = Int64 3\<rparr>"

definition regular_customer :: customer_record where
  "regular_customer =
     \<lparr>CustomerID = Some ''C003'', City = ''Bhopal'', Zone = ''South'',
      CustomerSegment = ''Regular'', AvgOrderValue = Int64 300, OrderFrequency = Int64 2,
      ReturnedOrders = Int64 1, SatisfactionScore = Int64 3\<rparr>"

definition no_orders :: customer_record where
  "no_orders =
     \<lparr>CustomerID = Some ''C004'', City = ''Bhopal'', Zone = ''South'',
      CustomerSegment = ''Budget'', AvgOrderValue = Int64 0, OrderFrequency = Int64 0,
      ReturnedOrders = Int64 0, SatisfactionScore = Int64 3\<rparr>"

definition vip_customer :: customer_record where
  "vip_customer =
     \<lparr>CustomerID = Some ''C005'', City = ''Indore'', Zone = ''East'',
      CustomerSegment = ''VIP'', AvgOrderValue = Int64 900, OrderFrequency = Int64 5,
      ReturnedOrders = Int64 0, SatisfactionScore = Int64 5\<rparr>"

text \<open>A customer whose lifetime value does not fit into int64.\<close>

definition whale_customer :: customer_record where
  "whale_customer =
     \<lparr>CustomerID = Some ''C006'', City = ''Indore'', Zone = ''West'',
      CustomerSegment = ''Premium'', AvgOrderValue = Int64 3037000500,
      OrderFrequency = Int64 3037000500, ReturnedOrders = Int64 0,
      SatisfactionScore = Int64 5\<rparr>"

text \<open>A row of a float64 table whose frequency is the negative zero.\<close>

definition negative_zero_orders :: customer_record where
  "negative_zero_orders =
     \<lparr>CustomerID = Some ''C007'', City = ''Bhopal'', Zone = ''East'',
      CustomerSegment = ''Budget'', AvgOrderValue = Float64 (Num 250),
      OrderFrequency = Float64 NegZero, ReturnedOrders = Float64 (Num 1),
      SatisfactionScore = Float64 (Num 3)\<rparr>"

text \<open>A row without identifier.\<close>

definition anonymous_customer :: customer_record where
  "anonymous_customer =
     \<lparr>CustomerID = None, City = ''Bhopal'', Zone = ''South'',
      CustomerSegment = ''Regular'', AvgOrderValue = Int64 200, OrderFrequency = Int64 1,
      ReturnedOrders = Int64 0, SatisfactionScore = Int64 4\<rparr>"

definition loaded_table :: "derived_row list" where
  "loaded_table = add_computed_columns [premium_customer, regular_customer, vip_customer]"

section \<open>Properties of the rounding\<close>

text \<open>
  \<open>floor_log2\<close> is the binary logarithm rounded down, and a finite result of
  \<open>round64\<close> lies within half a unit in the last place of the number rounded.
\<close>

lemma bits_bounds: "0 < n \<Longrightarrow> 2 ^ (bits n - 1) \<le> n \<and> n < 2 ^ bits n"
proof (induction n rule: bits.induct)
  case (1 n)
  show ?case
  proof (cases "n div 2 = 0")
    case True
    with "1.prems" have "n = 1" by auto
    then show ?thesis by (simp add: bits.simps)
  next
    case False
    with "1.prems" have pos: "0 < n div 2" by auto
    from "1.prems" have b: "bits n = Suc (bits (n div 2))"
      by (subst bits.simps) simp
    from pos have bp: "0 < bits (n div 2)"
      by (subst bits.simps) simp
    from "1.IH" "1.prems" pos
    have ih: "2 ^ (bits (n div 2) - 1) \<le> n div 2 \<and> n div 2 < 2 ^ bits (n div 2)"
      by simp
    from bp have p: "(2::int) ^ bits (n div 2) = 2 * 2 ^ (bits (n div 2) - 1)"
      by (cases "bits (n div 2)") simp_all
    from ih p have lo: "2 ^ bits (n div 2) \<le> n" by linarith
    from ih have hi: "n < 2 * 2 ^ bits (n div 2)" by linarith
    from lo hi show ?thesis by (simp add: b)
  qed
qed

lemma floor_log2_bounds:
  assumes "0 < x"
  shows "pow2 (floor_log2 x) \<le> x \<and> x < pow2 (floor_log2 x + 1)"
proof (cases "1 \<le> x")
  case True
  then have n: "0 < \<lfloor>x\<rfloor>" by linarith
  from bits_bounds [OF n]
  have b: "2 ^ (bits \<lfloor>x\<rfloor> - 1) \<le> \<lfloor>x\<rfloor>" "\<lfloor>x\<rfloor> < 2 ^ bits \<lfloor>x\<rfloor>" by simp_all
  from n have bp: "0 < bits \<lfloor>x\<rfloor>" by (subst bits.simps) simp
  from b(1) have "real_of_int (2 ^ (bits \<lfloor>x\<rfloor> - 1)) \<le> x"
    by (simp only: le_floor_iff)
  then have lo: "2 ^ (bits \<lfloor>x\<rfloor> - 1) \<le> x" by simp
  from b(2) have "x < real_of_int (2 ^ bits \<lfloor>x\<rfloor>)"
    by (simp only: floor_less_iff)
  then have hi: "x < 2 ^ bits \<lfloor>x\<rfloor>" by simp
  from bp have "nat (int (bits \<lfloor>x\<rfloor>) - 1) = bits \<lfloor>x\<rfloor> - 1" by simp
  with True bp lo hi show ?thesis
    by (simp add: floor_log2_def pow2_def)
next
  case False
  with assms have y: "1 < 1 / x" by simp
  then have m: "0 < \<lceil>1 / x\<rceil> - 1" by linarith
  let ?m = "\<lceil>1 / x\<rceil> - 1"
  from bits_bounds [OF m]
  have b: "2 ^ (bits ?m - 1) \<le> ?m" "?m < 2 ^ bits ?m" by simp_all
  from m have bp: "0 < bits ?m" by (subst bits.simps) simp
  from b(2) have "\<lceil>1 / x\<rceil> \<le> 2 ^ bits ?m" by simp
  then have "1 / x \<le> real_of_int (2 ^ bits ?m)"
    by (simp only: ceiling_le_iff)
  then have "1 / x \<le> 2 ^ bits ?m" by simp
  with assms have lo: "1 / 2 ^ bits ?m \<le> x"
    by (simp add: field_simps)
  from b(1) have "2 ^ (bits ?m - 1) < \<lceil>1 / x\<rceil>" by simp
  then have "real_of_int (2 ^ (bits ?m - 1)) < 1 / x"
    by (simp only: less_ceiling_iff)
  then have "2 ^ (bits ?m - 1) < 1 / x" by simp
  with assms have hi: "x < 1 / 2 ^ (bits ?m - 1)"
    by (simp add: field_simps)
  have e: "floor_log2 x = - int (bits ?m)"
    using False by (simp add: floor_log2_def)
  have p1: "pow2 (- int (bits ?m)) = 1 / 2 ^ bits ?m"
    using bp by (simp add: pow2_def)
  have p2: "pow2 (- int (bits ?m) + 1) = 1 / 2 ^ (bits ?m - 1)"
  proof (cases "bits ?m = 1")
    case True
    then show ?thesis by (simp add: pow2_def)
  next
    case False
    with bp have "1 < bits ?m" by simp
    then have "nat (int (bits ?m) - 1) = bits ?m - 1" by simp
    with \<open>1 < bits ?m\<close> show ?thesis by (simp add: pow2_def)
  qed
  from lo hi show ?thesis by (simp only: e p1 p2)
qed

lemma rint_nearest: "\<bar>real_of_int (rint y) - y\<bar> \<le> 1 / 2"
  unfolding rint_def Let_def by (auto simp: abs_le_iff)

lemma pow2_pos: "0 < pow2 e"
  by (simp add: pow2_def)

lemma round64_nearest:
  assumes "round64 x = Num y"
  shows "\<bar>y - x\<bar> \<le> pow2 (max (floor_log2 \<bar>x\<bar> - 52) (- 1074)) / 2"
proof (cases "x = 0")
  case True
  with assms show ?thesis
    using pow2_pos [of "max (floor_log2 \<bar>x\<bar> - 52) (- 1074)"] by (simp add: round64_def)
next
  case False
  define u where "u = pow2 (max (floor_log2 \<bar>x\<bar> - 52) (- 1074))"
  define k where "k = rint (\<bar>x\<bar> / u)"
  have p: "0 < u" unfolding u_def by (rule pow2_pos)
  have "(real_of_int k - \<bar>x\<bar> / u) * u = real_of_int k * u - \<bar>x\<bar>"
    using p by (simp add: left_diff_distrib)
  then have "\<bar>real_of_int k * u - \<bar>x\<bar>\<bar> = \<bar>(real_of_int k - \<bar>x\<bar> / u) * u\<bar>"
    by simp
  also have "\<dots> = \<bar>real_of_int k - \<bar>x\<bar> / u\<bar> * u"
    using p by (simp only: abs_mult abs_of_pos)
  also have "\<dots> \<le> 1 / 2 * u"
    using p rint_nearest [of "\<bar>x\<bar> / u"] unfolding k_def
    by (intro mult_right_mono) simp_all
  finally have near: "\<bar>real_of_int k * u - \<bar>x\<bar>\<bar> \<le> u / 2" by simp
  have r: "round64 x =
      (if 2 ^ 1024 \<le> real_of_int k * u then (if x < 0 then NegInf else PosInf)
       else if real_of_int k * u = 0 then (if x < 0 then NegZero else Num 0)
       else Num (if x < 0 then - (real_of_int k * u) else real_of_int k * u))"
    using False unfolding round64_def Let_def k_def u_def by (simp only: if_False)
  from assms have y: "y = (if x < 0 then - (real_of_int k * u) else real_of_int k * u)"
    unfolding r by (simp split: if_splits)
  show ?thesis
  proof (cases "x < 0")
    case True
    with y have "y - x = - (real_of_int k * u - \<bar>x\<bar>)" by simp
    then have "\<bar>y - x\<bar> = \<bar>real_of_int k * u - \<bar>x\<bar>\<bar>" by (simp only: abs_minus_cancel)
    with near show ?thesis unfolding u_def by simp
  next
    case False
    with y have "y - x = real_of_int k * u - \<bar>x\<bar>" by simp
    with near show ?thesis unfolding u_def by simp
  qed
qed

lemmas round_defs = round64_def floor_log2_def pow2_def rint_def bits.simps Let_def

lemma round64_0: "round64 0 = Num 0"
  by (simp add: round64_def)

section \<open>Properties of the scenario projection\<close>

lemma fadd_Num: "fadd (Num a) (Num b) = round64 (a + b)"
  by (auto simp: fadd_def is_inf_def zero_of_def round64_0)

lemma fsub_Num: "fsub (Num a) (Num b) = round64 (a - b)"
  by (auto simp: fsub_def fadd_def is_inf_def zero_of_def round64_0)

lemma fmul_Num: "fmul (Num a) (Num b) = round64s ((a < 0) \<noteq> (b < 0)) (a * b)"
  by (simp add: fmul_def is_inf_def)

lemma fmul_Num_nonzero: "a \<noteq> 0 \<Longrightarrow> b \<noteq> 0 \<Longrightarrow> fmul (Num a) (Num b) = round64 (a * b)"
  by (simp add: fmul_Num round64s_def)

lemma fmul_NaN: "fmul NaN b = NaN" "fmul a NaN = NaN"
  by (simp_all add: fmul_def)

lemma float64_literals:
  "round64 (1 / 4) = Num (1 / 4)"
  "round64 (2 / 5) = Num (3602879701896397 / 9007199254740992)"
  "round64 (1 / 10) = Num (3602879701896397 / 36028797018963968)"
  "round64 (16 / 5) = Num (3602879701896397 / 1125899906842624)"
  "round64 (11 / 10) = Num (2476979795053773 / 2251799813685248)"
  "round64 (112 / 25) = Num (1261007895663739 / 281474976710656)"
  "round64 (11088 / 5) = Num (4876553971512115 / 2199023255552)"
  by (simp_all add: round_defs)

lemma float64_sums:
  "round64 (1 - 1 / 4) = Num (3 / 4)"
  "round64 (1 + 3602879701896397 / 9007199254740992) = Num (3152519739159347 / 2251799813685248)"
  "round64 (1 + 3602879701896397 / 36028797018963968) = Num (2476979795053773 / 2251799813685248)"
  by (simp_all add: round_defs)

lemma float64_products:
  "round64 (300 * (3 / 4)) = Num 225"
  "round64 (3602879701896397 / 1125899906842624 * (3152519739159347 / 2251799813685248))
     = Num (5044031582654955 / 1125899906842624)"
  "round64 (450 * (2476979795053773 / 2251799813685248))
     = Num (8708132091985921 / 17592186044416)"
  "round64 (8708132091985921 / 17592186044416 * (5044031582654955 / 1125899906842624))
     = Num (4876553971512115 / 2199023255552)"
  by (simp_all add: round_defs)

lemma projected_cac_example:
  "projected_cac (Num 300) (p\<lparr>cac_reduction := round64 (25 / 100)\<rparr>) = Num 225"
proof -
  have "round64 (25 / 100) = Num (1 / 4)" using float64_literals(1) by simp
  then have "projected_cac (Num 300) (p\<lparr>cac_reduction := round64 (25 / 100)\<rparr>)
      = fmul (Num 300) (round64 (1 - 1 / 4))"
    by (simp add: projected_cac_def fsub_Num)
  also have "\<dots> = round64 (300 * (3 / 4))"
    by (simp only: float64_sums) (simp add: fmul_Num_nonzero)
  finally show ?thesis by (simp only: float64_products)
qed

lemma projected_frequency_example:
  "projected_frequency (round64 (32 / 10)) (p\<lparr>frequency_increase := round64 (40 / 100)\<rparr>)
     = Num (5044031582654955 / 1125899906842624)"
proof -
  have "round64 (40 / 100) = Num (3602879701896397 / 9007199254740992)"
    using float64_literals(2) by simp
  moreover have "round64 (32 / 10) = Num (3602879701896397 / 1125899906842624)"
    using float64_literals(4) by simp
  ultimately have
    "projected_frequency (round64 (32 / 10)) (p\<lparr>frequency_increase := round64 (40 / 100)\<rparr>)
      = fmul (Num (3602879701896397 / 1125899906842624))
          (round64 (1 + 3602879701896397 / 9007199254740992))"
    by (simp add: projected_frequency_def fadd_Num)
  also have "\<dots> = round64 (3602879701896397 / 1125899906842624
                               * (3152519739159347 / 2251799813685248))"
    by (simp only: float64_sums) (simp add: fmul_Num_nonzero)
  finally show ?thesis by (simp only: float64_products)
qed

lemma projected_aov_example:
  "projected_aov (Num 450) (p\<lparr>aov_increase := round64 (10 / 100)\<rparr>)
     = Num (8708132091985921 / 17592186044416)"
proof -
  have "round64 (10 / 100) = Num (3602879701896397 / 36028797018963968)"
    using float64_literals(3) by simp
  then have "projected_aov (Num 450) (p\<lparr>aov_increase := round64 (10 / 100)\<rparr>)
      = fmul (Num 450) (round64 (1 + 3602879701896397 / 36028797018963968))"
    by (simp add: projected_aov_def fadd_Num)
  also have "\<dots> = round64 (450 * (2476979795053773 / 2251799813685248))"
    by (simp only: float64_sums) (simp add: fmul_Num_nonzero)
  finally show ?thesis by (simp only: float64_products)
qed

lemma projected_clv_example:
  "projected_clv (Num 450) (round64 (32 / 10))
     (p\<lparr>aov_increase := round64 (10 / 100), frequency_increase := round64 (40 / 100)\<rparr>)
     = round64 (22176 / 10)"
proof -
  have a: "projected_aov (Num 450)
      (p\<lparr>aov_increase := round64 (10 / 100), frequency_increase := round64 (40 / 100)\<rparr>)
      = Num (8708132091985921 / 17592186044416)"
    using projected_aov_example [of "p\<lparr>frequency_increase := round64 (40 / 100)\<rparr>"]
    by (simp add: projected_aov_def)
  have f: "projected_frequency (round64 (32 / 10))
      (p\<lparr>aov_increase := round64 (10 / 100), frequency_increase := round64 (40 / 100)\<rparr>)
      = Num (5044031582654955 / 1125899906842624)"
    using projected_frequency_example [of "p\<lparr>aov_increase := round64 (10 / 100)\<rparr>"]
    by (simp add: projected_frequency_def)
  have r: "round64 (22176 / 10) = Num (4876553971512115 / 2199023255552)"
    using float64_literals(7) by simp
  have "projected_clv (Num 450) (round64 (32 / 10))
     (p\<lparr>aov_increase := round64 (10 / 100), frequency_increase := round64 (40 / 100)\<rparr>)
     = fmul (Num (8708132091985921 / 17592186044416))
         (Num (5044031582654955 / 1125899906842624))"
    unfolding projected_clv_def by (simp only: a f)
  also have "\<dots> = round64 (8708132091985921 / 17592186044416
                               * (5044031582654955 / 1125899906842624))"
    by (simp add: fmul_Num_nonzero)
  finally show ?thesis by (simp only: float64_products r)
qed

text \<open>
  C1, as the code has it. For all current averages (any float64 values, NaN and the
  infinities among them) and all scenario parameters, the projection is
  projectedCAC = currentCAC * (1 - cacReduction),
  projectedFreq = currentFrequency * (1 + frequencyIncrease),
  projectedAOV = currentAOV * (1 + aovIncrease),
  projectedCLV = projectedAOV * projectedFreq,
  projectedROI = projectedCLV - projectedCAC and
  projectedSatisfaction = Python's min of currentSatisfaction * 1.1 and 5.0, where
  every operation is the float64 one, which rounds its exact result, and the min of a
  NaN product is NaN. With cacReduction = 0.25 a CAC of 300 projects to 225 exactly;
  with frequencyIncrease = 0.40 a frequency of 3.2 projects to 4.4799999999999995,
  which is 5044031582654955 / 2 ^ 50; with aovIncrease = 0.10 an order value of 450
  projects to 495.00000000000006, which is 8708132091985921 / 2 ^ 44; and the
  projected CLV, the float64 product of the two, is the float64 value of 2217.6.
\<close>

theorem scenario_projection_formulas:
  "projected_cac c p = fmul c (fsub (Num 1) (cac_reduction p))
   \<and> projected_frequency f p = fmul f (fadd (Num 1) (frequency_increase p))
   \<and> projected_aov a p = fmul a (fadd (Num 1) (aov_increase p))
   \<and> projected_clv a f p = fmul (projected_aov a p) (projected_frequency f p)
   \<and> projected_roi c a f p = fsub (projected_clv a f p) (projected_cac c p)
   \<and> projected_satisfaction s = py_min (fmul s (round64 (11 / 10))) (Num 5)
   \<and> projected_satisfaction NaN = NaN
   \<and> projected_cac (Num x) (p\<lparr>cac_reduction := Num r\<rparr>) = fmul (Num x) (round64 (1 - r))
   \<and> projected_frequency (Num x) (p\<lparr>frequency_increase := Num r\<rparr>)
       = fmul (Num x) (round64 (1 + r))
   \<and> projected_aov (Num x) (p\<lparr>aov_increase := Num r\<rparr>) = fmul (Num x) (round64 (1 + r))
   \<and> projected_cac (Num 300) (p\<lparr>cac_reduction := round64 (25 / 100)\<rparr>) = Num 225
   \<and> projected_frequency (round64 (32 / 10)) (p\<lparr>frequency_increase := round64 (40 / 100)\<rparr>)
       = Num (5044031582654955 / 1125899906842624)
   \<and> projected_aov (Num 450) (p\<lparr>aov_increase := round64 (10 / 100)\<rparr>)
       = Num (8708132091985921 / 17592186044416)
   \<and> projected_clv (Num 450) (round64 (32 / 10))
         (p\<lparr>aov_increase := round64 (10 / 100), frequency_increase := round64 (40 / 100)\<rparr>)
       = round64 (22176 / 10)"
proof -
  have e: "projected_satisfaction NaN = NaN"
    by (simp add: projected_satisfaction_def py_min_def fless_def fmul_NaN)
  have g: "projected_cac c p = fmul c (fsub (Num 1) (cac_reduction p))
   \<and> projected_frequency f p = fmul f (fadd (Num 1) (frequency_increase p))
   \<and> projected_aov a p = fmul a (fadd (Num 1) (aov_increase p))
   \<and> projected_clv a f p = fmul (projected_aov a p) (projected_frequency f p)
   \<and> projected_roi c a f p = fsub (projected_clv a f p) (projected_cac c p)
   \<and> projected_satisfaction s = py_min (fmul s (round64 (11 / 10))) (Num 5)"
    by (simp add: projected_cac_def projected_frequency_def projected_aov_def
        projected_clv_def projected_roi_def projected_satisfaction_def)
  have h: "projected_cac (Num x) (p\<lparr>cac_reduction := Num r\<rparr>) = fmul (Num x) (round64 (1 - r))
   \<and> projected_frequency (Num x) (p\<lparr>frequency_increase := Num r\<rparr>)
       = fmul (Num x) (round64 (1 + r))
   \<and> projected_aov (Num x) (p\<lparr>aov_increase := Num r\<rparr>) = fmul (Num x) (round64 (1 + r))"
    by (simp add: projected_cac_def projected_frequency_def projected_aov_def
        fsub_Num fadd_Num)
  from e g h projected_cac_example [of p] projected_frequency_example [of p]
    projected_aov_example [of p] projected_clv_example [of p]
  show ?thesis by blast
qed

lemma base_case:
  "scenarios_data ''Base Case'' =
     Some \<lparr>cac_reduction = round64 (25 / 100), retention_increase = round64 (25 / 100),
           frequency_increase = round64 (40 / 100), aov_increase = round64 (10 / 100),
           timeline = 12\<rparr>"
  by (simp add: scenarios_data_def)

text \<open>
  C1 as stated fails: with the Base Case parameters the frequency 3.2 projects to
  4.4799999999999995, which is neither 4.48 nor the float64 value nearest to 4.48,
  and the order value 450 projects to 495.00000000000006, not to 495.
\<close>

theorem scenario_projection_counterexample:
  "map_option (projected_frequency (round64 (32 / 10))) (scenarios_data ''Base Case'')
     = Some (Num (5044031582654955 / 1125899906842624))
   \<and> round64 (448 / 100) = Num (1261007895663739 / 281474976710656)
   \<and> (5044031582654955 / 1125899906842624 :: real) \<noteq> 1261007895663739 / 281474976710656
   \<and> (5044031582654955 / 1125899906842624 :: real) \<noteq> 448 / 100
   \<and> map_option (projected_aov (Num 450)) (scenarios_data ''Base Case'')
     = Some (Num (8708132091985921 / 17592186044416))
   \<and> (8708132091985921 / 17592186044416 :: real) \<noteq> 495"
proof -
  let ?b = "\<lparr>cac_reduction = round64 (25 / 100), retention_increase = round64 (25 / 100),
           frequency_increase = round64 (40 / 100), aov_increase = round64 (10 / 100),
           timeline = 12\<rparr>"
  have f: "projected_frequency (round64 (32 / 10)) ?b
      = Num (5044031582654955 / 1125899906842624)"
    using projected_frequency_example [of ?b] by simp
  have a: "projected_aov (Num 450) ?b = Num (8708132091985921 / 17592186044416)"
    using projected_aov_example [of ?b] by simp
  have r: "round64 (448 / 100) = Num (1261007895663739 / 281474976710656)"
    using float64_literals(6) by simp
  have n: "(5044031582654955 / 1125899906842624 :: real) \<noteq> 1261007895663739 / 281474976710656
    \<and> (5044031582654955 / 1125899906842624 :: real) \<noteq> 448 / 100
    \<and> (8708132091985921 / 17592186044416 :: real) \<noteq> 495"
    by simp
  from f a r n show ?thesis
    by (simp only: base_case option.map) simp
qed

section \<open>Properties of the derived metrics\<close>

lemma length_as_column: "length (as_column cs) = length cs"
  by (simp add: as_column_def)

lemma length_series_map: "length (series_map d keys) = length keys"
  by (simp add: series_map_def length_as_column)

lemma all_found: "list_all is_int (map (map_dict d) keys) \<longleftrightarrow> (\<forall>k\<in>set keys. d k \<noteq> None)"
  by (induction keys) (auto simp: map_dict_def split: option.splits)

lemma series_map_nth:
  "i < length keys \<Longrightarrow>
   series_map d keys ! i =
     (if \<forall>k\<in>set keys. d k \<noteq> None then map_dict d (keys ! i)
      else Float64 (to_float (map_dict d (keys ! i))))"
  by (auto simp: series_map_def as_column_def all_found)

lemma series_map_missing:
  "i < length keys \<Longrightarrow> d (keys ! i) = None \<Longrightarrow> series_map d keys ! i = Float64 NaN"
  by (auto simp: series_map_nth map_dict_def)

lemma series_map_found:
  "i < length keys \<Longrightarrow> d (keys ! i) = Some c \<Longrightarrow>
   series_map d keys ! i =
     (if \<forall>k\<in>set keys. d k \<noteq> None then Int64 c
      else Float64 (round64 (real_of_int (sint c))))"
  by (simp add: series_map_nth map_dict_def)

lemma length_add_computed_columns: "length (add_computed_columns df) = length df"
  by (simp add: add_computed_columns_def Let_def length_series_map)

lemma add_computed_columns_nth:
  assumes "i < length df"
  shows "add_computed_columns df ! i =
     \<lparr>CustomerID = CustomerID (df ! i), City = City (df ! i), Zone = Zone (df ! i),
      CustomerSegment = CustomerSegment (df ! i), AvgOrderValue = AvgOrderValue (df ! i),
      OrderFrequency = OrderFrequency (df ! i), ReturnedOrders = ReturnedOrders (df ! i),
      SatisfactionScore = SatisfactionScore (df ! i),
      CLV = cmul (AvgOrderValue (df ! i)) (OrderFrequency (df ! i)),
      ReturnRate = cdiv (ReturnedOrders (df ! i)) (OrderFrequency (df ! i)),
      CAC = series_map cac_map (map CustomerSegment df) ! i,
      ROI = csub (cmul (AvgOrderValue (df ! i)) (OrderFrequency (df ! i)))
                 (series_map cac_map (map CustomerSegment df) ! i)\<rparr>"
  using assms by (simp add: add_computed_columns_def Let_def length_series_map)

lemma sint_mult_in_range:
  fixes a b :: int64
  assumes "- (2 ^ 63) \<le> sint a * sint b" and "sint a * sint b < 2 ^ 63"
  shows "sint (a * b) = sint a * sint b"
  using assms by (simp add: sint_word_ariths signed_take_bit_int_eq_self)

text \<open>
  C2, as the code has it. \<open>load_data\<close> returns a table with one row per record, in
  which CLV = AvgOrderValue * OrderFrequency is computed in the dtype of the columns
  and not rounded to decimals: for two int64 cells it is the product modulo
  \<open>2 ^ 64\<close>, which is the exact product when that fits into int64, and for two finite
  float64 cells it is the exact product rounded to float64. For a record whose segment
  has an entry in the segment-to-CAC dictionary, CAC is that entry, an int64 cell
  when every record of the table has an entry and the same number as a float64 cell
  otherwise; for the segment Premium it is 500. ROI = CLV - CAC in the arithmetic of
  the two columns.
\<close>

theorem derived_metrics_formulas:
  "\<exists>df. load_data (Some records) = Some df \<and> length df = length records
     \<and> (\<forall>i<length records.
          CLV (df ! i) = cmul (AvgOrderValue (records ! i)) (OrderFrequency (records ! i))
        \<and> (\<forall>a b. AvgOrderValue (records ! i) = Int64 a \<and> OrderFrequency (records ! i) = Int64 b
              \<longrightarrow> CLV (df ! i) = Int64 (a * b)
                \<and> (- (2 ^ 63) \<le> sint a * sint b \<and> sint a * sint b < 2 ^ 63
                     \<longrightarrow> sint (a * b) = sint a * sint b))
        \<and> (\<forall>x y. AvgOrderValue (records ! i) = Float64 (Num x)
                  \<and> OrderFrequency (records ! i) = Float64 (Num y)
              \<longrightarrow> CLV (df ! i) = Float64 (round64s ((x < 0) \<noteq> (y < 0)) (x * y)))
        \<and> (\<forall>c. cac_map (CustomerSegment (records ! i)) = Some c
              \<longrightarrow> CAC (df ! i) =
                    (if \<forall>r\<in>set records. cac_map (CustomerSegment r) \<noteq> None then Int64 c
                     else Float64 (round64 (real_of_int (sint c)))))
        \<and> (CustomerSegment (records ! i) = ''Premium'' \<longrightarrow> to_float (CAC (df ! i)) = Num 500)
        \<and> ROI (df ! i) = csub (CLV (df ! i)) (CAC (df ! i)))"
proof -
  let ?df = "add_computed_columns records"
  have prem: "to_float
     (if \<forall>r\<in>set records. cac_map (CustomerSegment r) \<noteq> None then Int64 500
      else Float64 (round64 (real_of_int (sint (500 :: int64))))) = Num 500"
    by (simp add: round64_def floor_log2_def pow2_def rint_def bits.simps Let_def)
  have p: "cac_map ''Premium'' = Some 500"
    by (simp add: cac_map_def)
  have l: "load_data (Some records) = Some ?df"
    by (simp add: load_data_def)
  have n: "length ?df = length records"
    by (rule length_add_computed_columns)
  have cac: "CAC (?df ! i) =
          (if \<forall>r\<in>set records. cac_map (CustomerSegment r) \<noteq> None then Int64 c
           else Float64 (round64 (real_of_int (sint c))))"
    if "i < length records" and "cac_map (CustomerSegment (records ! i)) = Some c" for i c
    using that series_map_found [of i "map CustomerSegment records" cac_map c]
    by (simp add: add_computed_columns_nth)
  have clv: "CLV (?df ! i) = cmul (AvgOrderValue (records ! i)) (OrderFrequency (records ! i))"
    if "i < length records" for i
    using that by (simp add: add_computed_columns_nth)
  have roi: "ROI (?df ! i) = csub (CLV (?df ! i)) (CAC (?df ! i))"
    if "i < length records" for i
    using that by (simp add: add_computed_columns_nth)
  have ints: "CLV (?df ! i) = Int64 (a * b)"
    if "i < length records" and "AvgOrderValue (records ! i) = Int64 a"
      and "OrderFrequency (records ! i) = Int64 b" for i a b
    using that by (simp add: clv)
  have floats: "CLV (?df ! i) = Float64 (round64s ((x < 0) \<noteq> (y < 0)) (x * y))"
    if "i < length records" and "AvgOrderValue (records ! i) = Float64 (Num x)"
      and "OrderFrequency (records ! i) = Float64 (Num y)" for i x y
    using that by (simp add: clv fmul_def is_inf_def)
  have premium: "to_float (CAC (?df ! i)) = Num 500"
    if "i < length records" and "CustomerSegment (records ! i) = ''Premium''" for i
    using that cac [of i 500] p prem by simp
  show ?thesis
    using l n clv ints floats cac premium roi sint_mult_in_range
    by (intro exI [of _ ?df]) blast
qed

theorem derived_metrics_formulas_witness:
  "(0::nat) < length [premium_customer]
   \<and> AvgOrderValue ([premium_customer] ! 0) = Int64 450
   \<and> OrderFrequency ([premium_customer] ! 0) = Int64 4
   \<and> - (2 ^ 63) \<le> sint (450 :: int64) * sint (4 :: int64)
   \<and> sint (450 :: int64) * sint (4 :: int64) < 2 ^ 63
   \<and> CustomerSegment ([premium_customer] ! 0) = ''Premium''
   \<and> cac_map (CustomerSegment ([premium_customer] ! 0)) = Some 500
   \<and> map_option (map CLV) (load_data (Some [premium_customer])) = Some [Int64 1800]
   \<and> map_option (map CAC) (load_data (Some [premium_customer])) = Some [Int64 500]
   \<and> map_option (map ROI) (load_data (Some [premium_customer])) = Some [Int64 1300]"
proof -
  have c: "(0::nat) < length [premium_customer]
   \<and> AvgOrderValue ([premium_customer] ! 0) = Int64 450
   \<and> OrderFrequency ([premium_customer] ! 0) = Int64 4
   \<and> - (2 ^ 63) \<le> sint (450 :: int64) * sint (4 :: int64)
   \<and> sint (450 :: int64) * sint (4 :: int64) < 2 ^ 63
   \<and> CustomerSegment ([premium_customer] ! 0) = ''Premium''
   \<and> cac_map (CustomerSegment ([premium_customer] ! 0)) = Some 500
   \<and> map_option (map CLV) (load_data (Some [premium_customer])) = Some [Int64 1800]
   \<and> map_option (map CAC) (load_data (Some [premium_customer])) = Some [Int64 500]
   \<and> map_option (map ROI) (load_data (Some [premium_customer])) = Some [Int64 1300]"
    by (simp add: premium_customer_def cac_map_def load_data_def add_computed_columns_def
        series_map_def as_column_def map_dict_def)
  from derived_metrics_formulas [of "[premium_customer]"] c show ?thesis
    by blast
qed

text \<open>
  C2 as stated fails: for a record with AvgOrderValue = OrderFrequency = 3037000500 in
  int64 columns the stored CLV is -9223372036709301616, not the product
  9223372037000250000.
\<close>

theorem clv_wraps_counterexample:
  "AvgOrderValue whale_customer = Int64 3037000500
   \<and> OrderFrequency whale_customer = Int64 3037000500
   \<and> map_option (map CLV) (load_data (Some [whale_customer]))
       = Some [Int64 (- 9223372036709301616)]
   \<and> sint (- 9223372036709301616 :: int64) = - 9223372036709301616
   \<and> (3037000500 * 3037000500 :: int) = 9223372037000250000"
  by (simp add: whale_customer_def load_data_def add_computed_columns_def
      series_map_def as_column_def map_dict_def cac_map_def)

lemma fdiv_by_zero:
  "is_zero b \<Longrightarrow>
   fdiv a b = (if a = NaN \<or> is_zero a then NaN else inf_of (is_neg a \<noteq> is_neg b))"
  by (auto simp: fdiv_def is_zero_def is_inf_def inf_of_def)

lemma length_filter_not:
  "length (filter (\<lambda>r. \<not> P r) xs) = length xs - length (filter P xs)"
  by (induction xs) (auto simp: Suc_diff_le)

lemma ReturnRate_column:
  "map ReturnRate (add_computed_columns records)
     = map (\<lambda>r. cdiv (ReturnedOrders r) (OrderFrequency r)) records"
  by (rule nth_equalityI) (simp_all add: length_add_computed_columns add_computed_columns_nth)

text \<open>
  C3, as the code has it. For a record whose OrderFrequency is zero (the int64 0, or
  the float64 zero of either sign) nothing is raised, and the ReturnRate is NaN when
  ReturnedOrders is zero or NaN (an empty cell); otherwise it is an infinity, positive
  when ReturnedOrders and the zero have the same sign and negative when they differ.
  The count of the ReturnRate column in \<open>describe()\<close> leaves out exactly the NaN cells:
  it is N - k for N rows of which k have the ReturnRate NaN, so a row with an infinite
  rate is not left out.
\<close>

theorem return_rate_zero_frequency:
  "\<exists>df. load_data (Some records) = Some df \<and> length df = length records
     \<and> (\<forall>i<length records. is_zero (to_float (OrderFrequency (records ! i))) \<longrightarrow>
          ReturnRate (df ! i) =
            Float64 (if to_float (ReturnedOrders (records ! i)) = NaN
                        \<or> is_zero (to_float (ReturnedOrders (records ! i))) then NaN
                     else inf_of (is_neg (to_float (ReturnedOrders (records ! i)))
                                  \<noteq> is_neg (to_float (OrderFrequency (records ! i))))))
     \<and> describe_count (map ReturnRate df)
         = length records - length (filter (\<lambda>r. ReturnRate r = Float64 NaN) df)"
proof -
  let ?df = "add_computed_columns records"
  have l: "load_data (Some records) = Some ?df"
    by (simp add: load_data_def)
  have n: "length ?df = length records"
    by (rule length_add_computed_columns)
  have rows: "ReturnRate (?df ! i) =
            Float64 (if to_float (ReturnedOrders (records ! i)) = NaN
                        \<or> is_zero (to_float (ReturnedOrders (records ! i))) then NaN
                     else inf_of (is_neg (to_float (ReturnedOrders (records ! i)))
                                  \<noteq> is_neg (to_float (OrderFrequency (records ! i)))))"
    if "i < length records" and "is_zero (to_float (OrderFrequency (records ! i)))" for i
    using that by (simp add: add_computed_columns_nth cdiv_def fdiv_by_zero)
  have "describe_count (map ReturnRate ?df)
      = length (filter (\<lambda>r. \<not> ReturnRate r = Float64 NaN) ?df)"
    by (simp add: describe_count_def isna_def filter_map o_def)
  then have c: "describe_count (map ReturnRate ?df)
      = length records - length (filter (\<lambda>r. ReturnRate r = Float64 NaN) ?df)"
    by (simp only: length_filter_not n)
  show ?thesis
    using l n rows c by (intro exI [of _ ?df]) blast
qed

lemma round64_small: "round64 1 = Num 1" "round64 2 = Num 2"
  by (simp_all add: round_defs)

lemma fdiv_examples:
  "fdiv (Num 1) (Num 2) = Num (1 / 2)"
  "fdiv (Num 1) (Num 0) = PosInf"
  "fdiv (Num 1) NegZero = NegInf"
  "fdiv (Num 0) (Num 0) = NaN"
  by (simp_all add: fdiv_def is_inf_def is_zero_def inf_of_def round64s_def round_defs)

lemma zero_frequency_columns:
  "map ReturnRate (add_computed_columns [no_orders, negative_zero_orders, regular_customer])
     = [Float64 NaN, Float64 NegInf, Float64 (Num (1 / 2))]"
  "map ReturnRate (add_computed_columns [returns_without_orders, regular_customer])
     = [Float64 PosInf, Float64 (Num (1 / 2))]"
  by (simp_all add: ReturnRate_column no_orders_def negative_zero_orders_def
      returns_without_orders_def regular_customer_def cdiv_def round64_0 round64_small
      fdiv_examples)

theorem return_rate_zero_frequency_witness:
  "(0::nat) < length [no_orders, negative_zero_orders, regular_customer]
   \<and> is_zero (to_float (OrderFrequency ([no_orders, negative_zero_orders, regular_customer] ! 0)))
   \<and> is_zero (to_float (OrderFrequency ([no_orders, negative_zero_orders, regular_customer] ! 1)))
   \<and> map_option (map ReturnRate)
        (load_data (Some [no_orders, negative_zero_orders, regular_customer]))
       = Some [Float64 NaN, Float64 NegInf, Float64 (Num (1 / 2))]
   \<and> map_option (\<lambda>df. describe_count (map ReturnRate df))
        (load_data (Some [no_orders, negative_zero_orders, regular_customer])) = Some 2"
proof -
  have z: "is_zero (to_float (OrderFrequency ([no_orders, negative_zero_orders, regular_customer] ! 0)))
   \<and> is_zero (to_float (OrderFrequency ([no_orders, negative_zero_orders, regular_customer] ! 1)))"
    by (simp add: no_orders_def negative_zero_orders_def is_zero_def round64_0)
  have c: "map_option (map ReturnRate)
        (load_data (Some [no_orders, negative_zero_orders, regular_customer]))
       = Some [Float64 NaN, Float64 NegInf, Float64 (Num (1 / 2))]
   \<and> map_option (\<lambda>df. describe_count (map ReturnRate df))
        (load_data (Some [no_orders, negative_zero_orders, regular_customer])) = Some 2"
    by (simp only: load_data_def option.case option.map zero_frequency_columns)
       (simp add: describe_count_def isna_def)
  from return_rate_zero_frequency [of "[no_orders, negative_zero_orders, regular_customer]"] z c
  show ?thesis by simp
qed

text \<open>
  C3 as stated fails: a record with OrderFrequency = 0 and ReturnedOrders = 1 has the
  ReturnRate plus infinity, which is not NaN, and \<open>describe()\<close> counts it: both rows
  of the table are summarised.
\<close>

theorem return_rate_infinite_counterexample:
  "OrderFrequency returns_without_orders = Int64 0
   \<and> ReturnedOrders returns_without_orders = Int64 1
   \<and> map_option (map ReturnRate) (load_data (Some [returns_without_orders, regular_customer]))
       = Some [Float64 PosInf, Float64 (Num (1 / 2))]
   \<and> Float64 PosInf \<noteq> Float64 NaN
   \<and> map_option (\<lambda>df. describe_count (map ReturnRate df))
        (load_data (Some [returns_without_orders, regular_customer])) = Some 2"
proof -
  have a: "OrderFrequency returns_without_orders = Int64 0
   \<and> ReturnedOrders returns_without_orders = Int64 1"
    by (simp add: returns_without_orders_def)
  have c: "map_option (map ReturnRate) (load_data (Some [returns_without_orders, regular_customer]))
       = Some [Float64 PosInf, Float64 (Num (1 / 2))]
   \<and> map_option (\<lambda>df. describe_count (map ReturnRate df))
        (load_data (Some [returns_without_orders, regular_customer])) = Some 2"
    by (simp only: load_data_def option.case option.map zero_frequency_columns)
       (simp add: describe_count_def isna_def)
  from a c show ?thesis by simp
qed

lemma fsub_NaN: "fsub a NaN = NaN"
  by (simp add: fsub_def fadd_def)

lemma fdiv_NaN: "fdiv a NaN = NaN"
  by (simp add: fdiv_def)

lemma length_df_custom: "length (df_custom d t) = length t"
  by (simp add: df_custom_def add_ROI_Ratio_def set_ROI_def set_CAC_def length_series_map)

lemma df_custom_nth:
  assumes "i < length t"
  shows "df_custom d t ! i =
     \<lparr>CustomerID = CustomerID (t ! i), City = City (t ! i), Zone = Zone (t ! i),
      CustomerSegment = CustomerSegment (t ! i), AvgOrderValue = AvgOrderValue (t ! i),
      OrderFrequency = OrderFrequency (t ! i), ReturnedOrders = ReturnedOrders (t ! i),
      SatisfactionScore = SatisfactionScore (t ! i),
      CLV = CLV (t ! i), ReturnRate = ReturnRate (t ! i),
      CAC = series_map d (map CustomerSegment t) ! i,
      ROI = csub (CLV (t ! i)) (series_map d (map CustomerSegment t) ! i),
      ROI_Ratio = cdiv (CLV (t ! i)) (series_map d (map CustomerSegment t) ! i)\<rparr>"
  using assms
  by (simp add: df_custom_def add_ROI_Ratio_def set_ROI_def set_CAC_def length_series_map
      derived_row.defs custom_row.defs)

text \<open>
  C4, as the code has it. When a record's segment is absent from the segment-to-CAC
  dictionary, the derivation raises nothing: \<open>load_data\<close> returns a table with one row
  per record, and the record gets CAC = NaN and ROI = NaN. The recomputation with a
  custom dictionary does the same, and its ROI_Ratio is NaN as well.
\<close>

theorem unmapped_segment_gives_nan:
  "(\<exists>df. load_data (Some records) = Some df \<and> length df = length records
      \<and> (\<forall>i<length records. cac_map (CustomerSegment (records ! i)) = None
            \<longrightarrow> CAC (df ! i) = Float64 NaN \<and> ROI (df ! i) = Float64 NaN))
   \<and> length (df_custom d t) = length t
   \<and> (\<forall>i<length t. d (CustomerSegment (t ! i)) = None
         \<longrightarrow> CAC (df_custom d t ! i) = Float64 NaN \<and> ROI (df_custom d t ! i) = Float64 NaN
             \<and> ROI_Ratio (df_custom d t ! i) = Float64 NaN)"
proof -
  have m: "series_map e (map CustomerSegment rs) ! i = Float64 NaN"
    if "i < length rs" and "e (CustomerSegment (rs ! i)) = None"
    for e and rs :: "'a customer_record_scheme list" and i
    using that series_map_missing [of i "map CustomerSegment rs" e] by simp
  have a: "\<exists>df. load_data (Some records) = Some df \<and> length df = length records
      \<and> (\<forall>i<length records. cac_map (CustomerSegment (records ! i)) = None
            \<longrightarrow> CAC (df ! i) = Float64 NaN \<and> ROI (df ! i) = Float64 NaN)"
    by (simp add: load_data_def length_add_computed_columns add_computed_columns_nth m
        fsub_NaN)
  have b: "length (df_custom d t) = length t"
    by (rule length_df_custom)
  have c: "\<forall>i<length t. d (CustomerSegment (t ! i)) = None
         \<longrightarrow> CAC (df_custom d t ! i) = Float64 NaN \<and> ROI (df_custom d t ! i) = Float64 NaN
             \<and> ROI_Ratio (df_custom d t ! i) = Float64 NaN"
    by (simp add: df_custom_nth m fsub_NaN cdiv_def fdiv_NaN)
  from a b c show ?thesis by blast
qed

theorem unmapped_segment_gives_nan_witness:
  "(0::nat) < length [vip_customer]
   \<and> cac_map (CustomerSegment ([vip_customer] ! 0)) = None
   \<and> cac_map_custom 500 300 200 150
        (CustomerSegment (add_computed_columns [vip_customer] ! 0)) = None
   \<and> map_option (map CAC) (load_data (Some [vip_customer])) = Some [Float64 NaN]
   \<and> map ROI_Ratio (df_custom (cac_map_custom 500 300 200 150)
                      (add_computed_columns [vip_customer])) = [Float64 NaN]"
proof -
  have c: "(0::nat) < length [vip_customer]
   \<and> cac_map (CustomerSegment ([vip_customer] ! 0)) = None
   \<and> cac_map_custom 500 300 200 150
        (CustomerSegment (add_computed_columns [vip_customer] ! 0)) = None"
    by (simp add: vip_customer_def cac_map_def cac_map_custom_def add_computed_columns_nth)
  from unmapped_segment_gives_nan
    [of "[vip_customer]" "cac_map_custom 500 300 200 150"
        "add_computed_columns [vip_customer]"] c
  have "CAC (the (load_data (Some [vip_customer])) ! 0) = Float64 NaN
    \<and> ROI_Ratio (df_custom (cac_map_custom 500 300 200 150)
                      (add_computed_columns [vip_customer]) ! 0) = Float64 NaN"
    by (auto simp: length_add_computed_columns)
  then have "map_option (map CAC) (load_data (Some [vip_customer])) = Some [Float64 NaN]
   \<and> map ROI_Ratio (df_custom (cac_map_custom 500 300 200 150)
                      (add_computed_columns [vip_customer])) = [Float64 NaN]"
    by (auto simp: load_data_def list_eq_iff_nth_eq length_add_computed_columns
        length_df_custom)
  with c show ?thesis by blast
qed

text \<open>
  C4 as stated fails: for a record of the segment VIP, which the dictionary lacks,
  \<open>load_data\<close> signals no error and returns the row with CAC = NaN and ROI = NaN.
\<close>

theorem unmapped_segment_counterexample:
  "cac_map (CustomerSegment vip_customer) = None
   \<and> load_data (Some [vip_customer])
       = Some [\<lparr>CustomerID = Some ''C005'', City = ''Indore'', Zone = ''East'',
                 CustomerSegment = ''VIP'', AvgOrderValue = Int64 900,
                 OrderFrequency = Int64 5, ReturnedOrders = Int64 0,
                 SatisfactionScore = Int64 5,
                 CLV = Int64 4500, ReturnRate = Float64 (Num 0), CAC = Float64 NaN,
                 ROI = Float64 NaN\<rparr>]"
proof -
  have q: "cdiv (Int64 0) (Int64 5) = Float64 (Num 0)"
    by (simp add: cdiv_def fdiv_def is_inf_def is_zero_def round64s_def zero_of_def round_defs)
  show ?thesis
    by (simp add: vip_customer_def load_data_def add_computed_columns_def cac_map_def
        map_dict_def series_map_def as_column_def q fsub_def fadd_def)
qed

section \<open>Properties of the funnel\<close>

lemma OrderFrequency_column:
  "map OrderFrequency (add_computed_columns records) = map OrderFrequency records"
  by (rule nth_equalityI) (simp_all add: length_add_computed_columns add_computed_columns_nth)

lemma count_by_frequency:
  "length (filter (\<lambda>r. P (OrderFrequency r)) (add_computed_columns records))
     = length (filter (\<lambda>r. P (OrderFrequency r)) records)"
proof -
  have f: "length (filter (\<lambda>r. P (OrderFrequency r)) rs)
      = length (filter P (map OrderFrequency rs))"
    for rs :: "'a customer_record_scheme list"
    by (simp add: filter_map o_def)
  show ?thesis
    using f [of "add_computed_columns records"] f [of records]
    by (simp only: OrderFrequency_column)
qed

lemma stage_counts_loaded:
  "stage_1_order (add_computed_columns records) = stage_1_order records"
  "stage_2_3_orders (add_computed_columns records) = stage_2_3_orders records"
  "stage_4plus_orders (add_computed_columns records) = stage_4plus_orders records"
  "total_customers (add_computed_columns records) = total_customers records"
  using count_by_frequency [of "\<lambda>c. cell_ge c 1" records]
    count_by_frequency [of "between 2 3" records]
    count_by_frequency [of "\<lambda>c. cell_ge c 4" records]
  by (simp_all add: stage_1_order_def stage_2_3_orders_def stage_4plus_orders_def
      total_customers_def length_add_computed_columns)

text \<open>
  C5, as the code has it. The drop-off between two adjacent stages is computed as
  (upper - lower) / upper * 100, a percentage, when the upper count is not 0. When the
  upper count is 0 the division raises ZeroDivisionError; no NaN arises. The page
  raises exactly when the number of rows, the count of the first stage or the count
  of the second stage is 0.
\<close>

theorem dropoff_rates:
  "dropoff_1_2 df =
     (if stage_1_order df = 0 then Inl ZeroDivisionError
      else Inr ((real (stage_1_order df) - real (stage_2_3_orders df))
                 / real (stage_1_order df) * 100))
   \<and> dropoff_2_3 df =
     (if stage_2_3_orders df = 0 then Inl ZeroDivisionError
      else Inr ((real (stage_2_3_orders df) - real (stage_4plus_orders df))
                 / real (stage_2_3_orders df) * 100))
   \<and> ((\<exists>e. funnel_analysis df = Inl e)
        \<longleftrightarrow> (total_customers df = 0 \<or> stage_1_order df = 0 \<or> stage_2_3_orders df = 0))"
  by (auto simp: dropoff_1_2_def dropoff_2_3_def funnel_analysis_def conv_rate_1_def
      conv_rate_2_def conv_rate_3_def percent_def py_truediv_def split: sum.splits)

theorem dropoff_rates_witness:
  "stage_1_order (add_computed_columns [premium_customer, regular_customer]) = 2
   \<and> stage_2_3_orders (add_computed_columns [premium_customer, regular_customer]) = 1
   \<and> dropoff_1_2 (add_computed_columns [premium_customer, regular_customer]) = Inr 50
   \<and> dropoff_2_3 (add_computed_columns [premium_customer, regular_customer]) = Inr 0"
proof -
  have c: "stage_1_order (add_computed_columns [premium_customer, regular_customer]) = 2
   \<and> stage_2_3_orders (add_computed_columns [premium_customer, regular_customer]) = 1
   \<and> stage_4plus_orders (add_computed_columns [premium_customer, regular_customer]) = 1"
    by (simp only: stage_counts_loaded)
       (simp add: premium_customer_def regular_customer_def
        stage_1_order_def stage_2_3_orders_def stage_4plus_orders_def between_def)
  from dropoff_rates [of "add_computed_columns [premium_customer, regular_customer]"] c
  show ?thesis by simp
qed

text \<open>
  C5 as stated fails: on a table whose only row has OrderFrequency = 0 the upper count
  of the first drop-off is 0, and the drop-off is not 0 but a ZeroDivisionError; the
  page raises it.
\<close>

theorem dropoff_zero_counterexample:
  "stage_1_order (add_computed_columns [no_orders]) = 0
   \<and> dropoff_1_2 (add_computed_columns [no_orders]) = Inl ZeroDivisionError
   \<and> funnel_analysis (add_computed_columns [no_orders]) = Inl ZeroDivisionError"
proof -
  have c: "stage_1_order (add_computed_columns [no_orders]) = 0
    \<and> stage_2_3_orders (add_computed_columns [no_orders]) = 0
    \<and> total_customers (add_computed_columns [no_orders]) = 1"
    by (simp only: stage_counts_loaded)
       (simp add: no_orders_def stage_1_order_def stage_2_3_orders_def between_def
        total_customers_def)
  then show ?thesis
    by (simp add: dropoff_1_2_def funnel_analysis_def conv_rate_1_def conv_rate_2_def
        percent_def py_truediv_def)
qed

text \<open>
  C6. For every table, the funnel has registered = the number of rows, the active
  count = the number of rows with OrderFrequency at least 1, the engaged count = the
  number of rows with OrderFrequency between 2 and 3, both ends included, and the
  loyal count = the number of rows with OrderFrequency at least 4. The comparisons are
  those of the numbers in the cells; a NaN cell is in no band.
\<close>

theorem funnel_stage_counts:
  "total_customers df = length df
   \<and> stage_1_order df = card {i. i < length df \<and> cell_ge (OrderFrequency (df ! i)) 1}
   \<and> stage_2_3_orders df
       = card {i. i < length df \<and> cell_ge (OrderFrequency (df ! i)) 2
                  \<and> cell_le (OrderFrequency (df ! i)) 3}
   \<and> stage_4plus_orders df = card {i. i < length df \<and> cell_ge (OrderFrequency (df ! i)) 4}
   \<and> cell_ge (Int64 w) k = (k \<le> sint w) \<and> cell_le (Int64 w) k = (sint w \<le> k)
   \<and> cell_ge (Float64 (Num x)) k = (real_of_int k \<le> x)
   \<and> cell_le (Float64 (Num x)) k = (x \<le> real_of_int k)
   \<and> \<not> cell_ge (Float64 NaN) k \<and> \<not> cell_le (Float64 NaN) k
   \<and> stage_2_3_orders [r\<lparr>OrderFrequency := Int64 2\<rparr>, r\<lparr>OrderFrequency := Int64 3\<rparr>] = 2
   \<and> stage_2_3_orders [r\<lparr>OrderFrequency := Float64 (Num 2)\<rparr>,
                       r\<lparr>OrderFrequency := Float64 (Num 3)\<rparr>] = 2
   \<and> stage_4plus_orders [r\<lparr>OrderFrequency := Int64 4\<rparr>, r\<lparr>OrderFrequency := Int64 3\<rparr>] = 1
   \<and> stage_1_order [r\<lparr>OrderFrequency := Int64 1\<rparr>, r\<lparr>OrderFrequency := Int64 0\<rparr>] = 1"
  by (simp add: total_customers_def stage_1_order_def stage_2_3_orders_def
      stage_4plus_orders_def between_def length_filter_conv_card fle_def)

lemma funnel_bands:
  "between 2 3 c \<Longrightarrow> cell_ge c 1"
  "cell_ge c 4 \<Longrightarrow> cell_ge c 1"
  "between 2 3 c \<Longrightarrow> \<not> cell_ge c 4"
proof -
  show "between 2 3 c \<Longrightarrow> cell_ge c 1"
    by (cases c) (auto simp: between_def fle_def split: if_splits)
  show "cell_ge c 4 \<Longrightarrow> cell_ge c 1"
    by (cases c) (auto simp: fle_def split: if_splits)
  show "between 2 3 c \<Longrightarrow> \<not> cell_ge c 4"
    by (cases c) (auto simp: between_def fle_def split: if_splits)
qed

text \<open>
  C7. For every table, registered is at least the active count, which is at least 0,
  and the engaged count plus the loyal count is at most the active count: the bands
  [2, 3] and [4, ...) are disjoint and both lie within OrderFrequency at least 1.
\<close>

theorem funnel_count_invariants:
  "stage_1_order df \<le> total_customers df
   \<and> 0 \<le> stage_1_order df
   \<and> stage_2_3_orders df + stage_4plus_orders df \<le> stage_1_order df"
proof -
  have "stage_2_3_orders df + stage_4plus_orders df \<le> stage_1_order df"
    unfolding stage_2_3_orders_def stage_4plus_orders_def stage_1_order_def
    by (induction df) (auto dest: funnel_bands)
  then show ?thesis
    by (simp add: stage_1_order_def total_customers_def)
qed

section \<open>Properties of the grouped summaries\<close>

lemma sum_group_sizes:
  "finite A \<Longrightarrow> key ` set xs \<subseteq> A \<Longrightarrow>
   (\<Sum>k\<in>A. length (filter (\<lambda>r. key r = k) xs)) = length xs"
proof (induction xs)
  case Nil
  then show ?case by simp
next
  case (Cons x xs)
  then have kx: "key x \<in> A" and sub: "key ` set xs \<subseteq> A" by auto
  have "(\<Sum>k\<in>A. length (filter (\<lambda>r. key r = k) (x # xs)))
      = (\<Sum>k\<in>A. (if k = key x then 1 else 0) + length (filter (\<lambda>r. key r = k) xs))"
    by (rule sum.cong) auto
  also have "\<dots> = (\<Sum>k\<in>A. if k = key x then 1 else 0)
                  + (\<Sum>k\<in>A. length (filter (\<lambda>r. key r = k) xs))"
    by (rule sum.distrib)
  also have "(\<Sum>k\<in>A. if k = key x then 1 else 0) = (1::nat)"
    using Cons.prems(1) kx by simp
  also have "(\<Sum>k\<in>A. length (filter (\<lambda>r. key r = k) xs)) = length xs"
    using Cons.IH [OF Cons.prems(1) sub] .
  finally show ?case by simp
qed

lemma keyed_ids_df_custom: "keyed_ids (df_custom d df) = keyed_ids df"
  unfolding keyed_ids_def
  by (rule nth_equalityI) (simp_all add: length_df_custom df_custom_nth)

lemma group_count:
  "count (map CustomerID (filter (\<lambda>r. CustomerSegment r = k) t))
     = length (filter (\<lambda>p. fst p = k) (filter (\<lambda>p. snd p \<noteq> None) (keyed_ids t)))"
  by (induction t) (simp_all add: count_def keyed_ids_def)

lemma count_ids:
  "count (map CustomerID t) = length (filter (\<lambda>p. snd p \<noteq> None) (keyed_ids t))"
  by (induction t) (simp_all add: count_def keyed_ids_def)

lemma segments: "map CustomerSegment t = map fst (keyed_ids t)"
  by (simp add: keyed_ids_def o_def)

lemma segment_roi_counts:
  "map (\<lambda>(k, s). Customer_Count s) (segment_roi m dfc)
     = map (\<lambda>k. count (map CustomerID (filter (\<lambda>r. CustomerSegment r = k) dfc)))
         (sort (remdups (map CustomerSegment dfc)))"
  by (simp add: segment_roi_def groupby_def split_def o_def)

lemma segment_roi_keys:
  "map fst (segment_roi m dfc) = sort (remdups (map CustomerSegment dfc))"
  by (simp add: segment_roi_def groupby_def split_def o_def)

lemma count_complement:
  "count (map CustomerID t) = length t - length (filter (\<lambda>r. CustomerID r = None) t)"
  by (induction t) (auto simp: count_def Suc_diff_le)

text \<open>
  C8, as the code has it. For every table in which every row has a segment, and every
  segment-to-CAC dictionary (so in particular when every segment of the table is a
  key of the dictionary), the customer counts of the groups of \<open>segment_roi\<close> add up
  to the number of rows that have a CustomerID, which is the number of rows less those
  without one; they add up to the number of rows when every row has a CustomerID. No
  row is counted in two groups: the groups have distinct keys, there is one for each
  segment that occurs, and the count of a group is the number of rows of its segment
  that have a CustomerID.
\<close>

theorem group_counts_sum_to_rows:
  "sum_list (map (\<lambda>(k, s). Customer_Count s) (segment_roi m (df_custom d df)))
     = count (map CustomerID df)
   \<and> count (map CustomerID df) = length df - length (filter (\<lambda>r. CustomerID r = None) df)
   \<and> ((\<forall>r\<in>set df. CustomerID r \<noteq> None) \<longrightarrow>
        sum_list (map (\<lambda>(k, s). Customer_Count s) (segment_roi m (df_custom d df)))
          = length df)
   \<and> distinct (map fst (segment_roi m (df_custom d df)))
   \<and> set (map fst (segment_roi m (df_custom d df))) = CustomerSegment ` set df
   \<and> map (\<lambda>(k, s). Customer_Count s) (segment_roi m (df_custom d df))
       = map (\<lambda>k. count (map CustomerID (filter (\<lambda>r. CustomerSegment r = k) df)))
           (map fst (segment_roi m (df_custom d df)))"
proof -
  let ?t = "df_custom d df"
  let ?ks = "sort (remdups (map CustomerSegment df))"
  let ?ids = "filter (\<lambda>p. snd p \<noteq> None) (keyed_ids df)"
  have seg: "map CustomerSegment ?t = map CustomerSegment df"
    by (simp only: segments keyed_ids_df_custom)
  have keys: "map fst (segment_roi m ?t) = ?ks"
    by (simp only: segment_roi_keys seg)
  have each: "count (map CustomerID (filter (\<lambda>r. CustomerSegment r = k) ?t))
      = count (map CustomerID (filter (\<lambda>r. CustomerSegment r = k) df))" for k
    by (simp only: group_count keyed_ids_df_custom)
  have counts: "map (\<lambda>(k, s). Customer_Count s) (segment_roi m ?t)
      = map (\<lambda>k. count (map CustomerID (filter (\<lambda>r. CustomerSegment r = k) df))) ?ks"
    by (simp only: segment_roi_counts seg each)
  have d: "distinct ?ks" by simp
  have s: "set ?ks = CustomerSegment ` set df" by simp
  have sub: "fst ` set ?ids \<subseteq> set ?ks"
    by (auto simp: keyed_ids_def)
  have "sum_list (map (\<lambda>(k, s). Customer_Count s) (segment_roi m ?t))
      = sum_list (map (\<lambda>k. length (filter (\<lambda>p. fst p = k) ?ids)) ?ks)"
    by (simp only: counts group_count)
  also have "\<dots> = (\<Sum>k\<in>set ?ks. length (filter (\<lambda>p. fst p = k) ?ids))"
    using d by (rule sum_list_distinct_conv_sum_set)
  also have "\<dots> = length ?ids"
    using sub by (intro sum_group_sizes) simp_all
  also have "\<dots> = count (map CustomerID df)"
    by (simp only: count_ids)
  finally have total:
    "sum_list (map (\<lambda>(k, s). Customer_Count s) (segment_roi m ?t)) = count (map CustomerID df)" .
  have full: "count (map CustomerID df) = length df" if "\<forall>r\<in>set df. CustomerID r \<noteq> None"
    using that by (induction df) (simp_all add: count_def)
  show ?thesis
    using total count_complement [of df] full d s counts
    by (simp only: keys) blast
qed

theorem group_counts_sum_to_rows_witness:
  "map CustomerID
      (add_computed_columns [regular_customer, premium_customer, returns_without_orders])
     = [Some ''C003'', Some ''C001'', Some ''C002'']
   \<and> sum_list (map (\<lambda>(k, s). Customer_Count s)
        (segment_roi (\<lambda>col. Float64 NaN) (df_custom (cac_map_custom 400 300 200 150)
           (add_computed_columns
              [regular_customer, premium_customer, returns_without_orders])))) = 3"
proof -
  have c: "map CustomerID
      (add_computed_columns [regular_customer, premium_customer, returns_without_orders])
      = [Some ''C003'', Some ''C001'', Some ''C002'']"
    by (rule nth_equalityI)
       (auto simp: length_add_computed_columns add_computed_columns_nth less_Suc_eq
        regular_customer_def premium_customer_def returns_without_orders_def)
  have a: "\<forall>r\<in>set (add_computed_columns
      [regular_customer, premium_customer, returns_without_orders]). CustomerID r \<noteq> None"
  proof
    fix r
    assume "r \<in> set (add_computed_columns
      [regular_customer, premium_customer, returns_without_orders])"
    then have "CustomerID r \<in> set (map CustomerID (add_computed_columns
      [regular_customer, premium_customer, returns_without_orders]))"
      by simp
    then show "CustomerID r \<noteq> None"
      by (auto simp only: c set_simps)
  qed
  from group_counts_sum_to_rows
    [of "\<lambda>col. Float64 NaN" "cac_map_custom 400 300 200 150"
        "add_computed_columns [regular_customer, premium_customer, returns_without_orders]"] a c
  show ?thesis by (simp add: length_add_computed_columns)
qed

text \<open>
  C8 as stated fails: in a table of two Regular customers, one of them without
  CustomerID, every segment is in the dictionary, yet the only group has the count 1
  and the table has 2 rows.
\<close>

theorem group_counts_missing_id_counterexample:
  "map (cac_map_custom 500 300 200 150)
       (map CustomerSegment [regular_customer, anonymous_customer]) = [Some 300, Some 300]
   \<and> map (\<lambda>(k, s). (k, Customer_Count s))
        (segment_roi (\<lambda>col. Float64 NaN) (df_custom (cac_map_custom 500 300 200 150)
           (add_computed_columns [regular_customer, anonymous_customer])))
       = [(''Regular'', 1)]
   \<and> length (add_computed_columns [regular_customer, anonymous_customer]) = 2"
proof -
  let ?t = "df_custom (cac_map_custom 500 300 200 150)
           (add_computed_columns [regular_customer, anonymous_customer])"
  have k: "keyed_ids ?t = [(''Regular'', Some ''C003''), (''Regular'', None)]"
    unfolding keyed_ids_df_custom
    unfolding keyed_ids_def
    by (rule nth_equalityI)
       (auto simp: length_add_computed_columns add_computed_columns_nth less_Suc_eq
        regular_customer_def anonymous_customer_def)
  have seg: "map CustomerSegment ?t = [''Regular'', ''Regular'']"
    by (simp only: segments k) simp
  have "map (\<lambda>(k, s). (k, Customer_Count s)) (segment_roi (\<lambda>col. Float64 NaN) ?t)
      = map (\<lambda>k. (k, count (map CustomerID (filter (\<lambda>r. CustomerSegment r = k) ?t))))
          (sort (remdups (map CustomerSegment ?t)))"
    by (simp add: segment_roi_def groupby_def split_def o_def)
  also have "\<dots> = [(''Regular'', 1)]"
    by (simp only: group_count k seg) simp
  finally show ?thesis
    by (simp add: length_add_computed_columns regular_customer_def anonymous_customer_def
        cac_map_custom_def)
qed

section \<open>Properties of the tables as objects\<close>

lemma filtered_df_result:
  assumes "df < length h"
  shows "take (length h) (fst (filtered_df h df sc ss sz)) = h
    \<and> length h \<le> snd (filtered_df h df sc ss sz)
    \<and> snd (filtered_df h df sc ss sz) < length (fst (filtered_df h df sc ss sz))
    \<and> (\<forall>t. h ! df = Derived t \<longrightarrow>
          fst (filtered_df h df sc ss sz) ! snd (filtered_df h df sc ss sz)
            = Derived (filter (\<lambda>r. (sc = ''All'' \<or> City r = sc)
                                  \<and> (ss = ''All'' \<or> CustomerSegment r = ss)
                                  \<and> (sz = ''All'' \<or> Zone r = sz)) t))"
  using assms
  by (simp add: filtered_df_def df_copy_def getitem_where_def Let_def nth_append
      split: prod.splits)

lemma recompute_custom_result:
  assumes "df < length h"
  shows "take (length h) (fst (recompute_custom h df cp cr cb co)) = h
    \<and> snd (recompute_custom h df cp cr cb co) = length h
    \<and> length (fst (recompute_custom h df cp cr cb co)) = Suc (length h)
    \<and> (\<forall>t. h ! df = Derived t \<longrightarrow>
          fst (recompute_custom h df cp cr cb co) ! length h
            = Custom (df_custom (cac_map_custom cp cr cb co) t))"
  using assms
  by (simp add: recompute_custom_def df_copy_def setitem_CAC_def setitem_ROI_def
      setitem_ROI_Ratio_def Let_def nth_append df_custom_def)

lemma nth_of_take: "take n ys = xs \<Longrightarrow> i < n \<Longrightarrow> ys ! i = xs ! i"
  by (metis nth_take)

text \<open>
  C9. The loaded table is never changed in place. The filters of the Data Exploration
  page and the recomputation with custom acquisition costs each leave every object
  that existed before as it was, the loaded table among them, with all its rows and
  columns; their result is a new object, which holds the filtered rows, or the rows
  recomputed with the custom dictionary.
\<close>

theorem base_table_never_mutated:
  assumes "df < length h" and "h ! df = Derived t"
  shows "fst (filtered_df h df sc ss sz) ! df = Derived t
    \<and> take (length h) (fst (filtered_df h df sc ss sz)) = h
    \<and> snd (filtered_df h df sc ss sz) \<noteq> df
    \<and> fst (filtered_df h df sc ss sz) ! snd (filtered_df h df sc ss sz)
         = Derived (filter (\<lambda>r. (sc = ''All'' \<or> City r = sc)
                               \<and> (ss = ''All'' \<or> CustomerSegment r = ss)
                               \<and> (sz = ''All'' \<or> Zone r = sz)) t)
    \<and> fst (recompute_custom h df cp cr cb co) ! df = Derived t
    \<and> take (length h) (fst (recompute_custom h df cp cr cb co)) = h
    \<and> snd (recompute_custom h df cp cr cb co) \<noteq> df
    \<and> fst (recompute_custom h df cp cr cb co) ! snd (recompute_custom h df cp cr cb co)
         = Custom (df_custom (cac_map_custom cp cr cb co) t)"
proof -
  note f = filtered_df_result [OF assms(1), of sc ss sz]
  note c = recompute_custom_result [OF assms(1), of cp cr cb co]
  from f have f1: "take (length h) (fst (filtered_df h df sc ss sz)) = h" by blast
  from f assms(1) have f2: "snd (filtered_df h df sc ss sz) \<noteq> df" by linarith
  from f assms(2) have f3:
    "fst (filtered_df h df sc ss sz) ! snd (filtered_df h df sc ss sz)
         = Derived (filter (\<lambda>r. (sc = ''All'' \<or> City r = sc)
                               \<and> (ss = ''All'' \<or> CustomerSegment r = ss)
                               \<and> (sz = ''All'' \<or> Zone r = sz)) t)" by blast
  from c have c1: "take (length h) (fst (recompute_custom h df cp cr cb co)) = h" by blast
  from c assms(1) have c2: "snd (recompute_custom h df cp cr cb co) \<noteq> df" by linarith
  from c assms(2) have c3:
    "fst (recompute_custom h df cp cr cb co) ! snd (recompute_custom h df cp cr cb co)
         = Custom (df_custom (cac_map_custom cp cr cb co) t)" by simp
  from nth_of_take [OF f1 assms(1)] assms(2)
  have f0: "fst (filtered_df h df sc ss sz) ! df = Derived t" by simp
  from nth_of_take [OF c1 assms(1)] assms(2)
  have c0: "fst (recompute_custom h df cp cr cb co) ! df = Derived t" by simp
  from f0 f1 f2 f3 c0 c1 c2 c3 show ?thesis by blast
qed

theorem base_table_never_mutated_witness:
  "(0::nat) < length [Derived loaded_table]
   \<and> [Derived loaded_table] ! 0 = Derived loaded_table
   \<and> fst (filtered_df [Derived loaded_table] 0 ''Indore'' ''All'' ''North'') ! 0
       = Derived loaded_table
   \<and> snd (filtered_df [Derived loaded_table] 0 ''Indore'' ''All'' ''North'') = 3
   \<and> fst (recompute_custom [Derived loaded_table] 0 400 300 200 150) ! 0
       = Derived loaded_table
   \<and> snd (recompute_custom [Derived loaded_table] 0 400 300 200 150) = 1"
proof -
  have a: "(0::nat) < length [Derived loaded_table]" by simp
  have b: "[Derived loaded_table] ! 0 = Derived loaded_table" by simp
  have c: "snd (filtered_df [Derived loaded_table] 0 ''Indore'' ''All'' ''North'') = 3
    \<and> snd (recompute_custom [Derived loaded_table] 0 400 300 200 150) = 1"
    by (simp add: filtered_df_def recompute_custom_def df_copy_def getitem_where_def
        Let_def)
  from base_table_never_mutated [OF a b, of "''Indore''" "''All''" "''North''" 400 300 200 150]
    a b c
  show ?thesis by blast
qed

text \<open>
  C10. The recomputation with a custom dictionary computes only the columns CAC, ROI
  and ROI_Ratio from the new dictionary. The table keeps its rows, and in every row
  the columns CLV and ReturnRate and the input columns CustomerID, City, Zone,
  CustomerSegment, AvgOrderValue, OrderFrequency, ReturnedOrders and SatisfactionScore
  have the values of the table it was computed from.
\<close>

theorem custom_recompute_keeps_columns:
  "length (df_custom d df) = length df
   \<and> map CustomerID (df_custom d df) = map CustomerID df
   \<and> map City (df_custom d df) = map City df
   \<and> map Zone (df_custom d df) = map Zone df
   \<and> map CustomerSegment (df_custom d df) = map CustomerSegment df
   \<and> map AvgOrderValue (df_custom d df) = map AvgOrderValue df
   \<and> map OrderFrequency (df_custom d df) = map OrderFrequency df
   \<and> map ReturnedOrders (df_custom d df) = map ReturnedOrders df
   \<and> map SatisfactionScore (df_custom d df) = map SatisfactionScore df
   \<and> map CLV (df_custom d df) = map CLV df
   \<and> map ReturnRate (df_custom d df) = map ReturnRate df
   \<and> map CAC (df_custom d df) = series_map d (map CustomerSegment df)
   \<and> map ROI (df_custom d df)
       = map2 csub (map CLV df) (series_map d (map CustomerSegment df))
   \<and> map ROI_Ratio (df_custom d df)
       = map2 cdiv (map CLV df) (series_map d (map CustomerSegment df))"
proof -
  have col: "map f (df_custom d df) = map g df"
    if "\<And>i. i < length df \<Longrightarrow> f (df_custom d df ! i) = g (df ! i)"
    for f :: "custom_row \<Rightarrow> 'b" and g
    using that by (intro nth_equalityI) (simp_all add: length_df_custom)
  have cac: "map CAC (df_custom d df) = series_map d (map CustomerSegment df)"
    by (intro nth_equalityI) (simp_all add: length_df_custom length_series_map df_custom_nth)
  have roi: "map ROI (df_custom d df)
       = map2 csub (map CLV df) (series_map d (map CustomerSegment df))"
    by (intro nth_equalityI) (simp_all add: length_df_custom length_series_map df_custom_nth)
  have ratio: "map ROI_Ratio (df_custom d df)
       = map2 cdiv (map CLV df) (series_map d (map CustomerSegment df))"
    by (intro nth_equalityI) (simp_all add: length_df_custom length_series_map df_custom_nth)
  show ?thesis
    by (intro conjI length_df_custom cac roi ratio col) (simp_all add: df_custom_nth)
qed

end
